theory Spec2Isabelle
  imports Main "HOL-Library.Word" "HOL-Library.Signed_Division"
begin

unbundle bit_operations_syntax

section \<open>The SkSL IR generator\<close>

text \<open>
  A shallow embedding of the semantic-analysis core of the shading-language front end
  (\<^verbatim>\<open>IRGenerator\<close>, file \<^verbatim>\<open>src/unnamed/part_001\<close>). Heap-allocated IR nodes become
  values of datatypes, \<^verbatim>\<open>std::unique_ptr\<close> results that may be null become options, the
  error reporter becomes the list of reported (offset, message) pairs, and the mutable
  fields of the generator become a record that every conversion takes and returns.
\<close>

subsection \<open>Tokens\<close>

datatype Token_Kind =
    TK_PLUS | TK_MINUS | TK_STAR | TK_SLASH | TK_PERCENT
  | TK_SHL | TK_SHR
  | TK_BITWISEOR | TK_BITWISEXOR | TK_BITWISEAND | TK_BITWISENOT
  | TK_LOGICALOR | TK_LOGICALXOR | TK_LOGICALAND | TK_LOGICALNOT
  | TK_PLUSPLUS | TK_MINUSMINUS
  | TK_EQ | TK_EQEQ | TK_NEQ | TK_GT | TK_LT | TK_GTEQ | TK_LTEQ
  | TK_PLUSEQ | TK_MINUSEQ | TK_STAREQ | TK_SLASHEQ | TK_PERCENTEQ
  | TK_SHLEQ | TK_SHREQ
  | TK_BITWISEOREQ | TK_BITWISEXOREQ | TK_BITWISEANDEQ
  | TK_LOGICALOREQ | TK_LOGICALXOREQ | TK_LOGICALANDEQ
  | TK_COMMA | TK_QUESTION | TK_DOT

text \<open>
  Modelled from the spec: \<^verbatim>\<open>Compiler::IsAssignment\<close> is defined outside this file; the
  spec speaks of \<open>=\<close> and of the "assignment forms" of the binary operators, which are
  the tokens ending in \<^verbatim>\<open>EQ\<close> other than the comparisons.
\<close>

definition IsAssignment :: "Token_Kind \<Rightarrow> bool" where
  "IsAssignment op \<longleftrightarrow> op \<in> {TK_EQ, TK_PLUSEQ, TK_MINUSEQ, TK_STAREQ, TK_SLASHEQ,
      TK_PERCENTEQ, TK_SHLEQ, TK_SHREQ, TK_BITWISEOREQ, TK_BITWISEXOREQ, TK_BITWISEANDEQ,
      TK_LOGICALOREQ, TK_LOGICALXOREQ, TK_LOGICALANDEQ}"

subsection \<open>Types\<close>

text \<open>
  The class \<^verbatim>\<open>Type\<close> is declared outside this file. A type is modelled by the data its
  accessors return: name, kind, number kind, priority, columns, rows, component type
  and (for a struct) the named fields.
  Two types are the same type when their names agree (\<^verbatim>\<open>operator==\<close>; the spec:
  "identity by structural name").
\<close>

datatype TypeKind =
    kArray | kEnum | kGeneric | kNullable | kMatrix | kOther | kSampler
  | kSeparateSampler | kScalar | kStruct | kTexture | kVector

datatype NumberKind = kFloat | kSigned | kUnsigned | kNonnumeric

datatype Type = Type (fName: string) (typeKind: TypeKind) (numberKind: NumberKind)
  (priority: int) (columns: int) (rows: int) (fComponentType: "Type option")
  (fFields: "(string \<times> Type) list")

definition type_eq :: "Type \<Rightarrow> Type \<Rightarrow> bool" where
  "type_eq a b \<longleftrightarrow> fName a = fName b"

definition isNumber :: "Type \<Rightarrow> bool" where
  "isNumber t \<longleftrightarrow> numberKind t \<noteq> kNonnumeric"

definition isFloat :: "Type \<Rightarrow> bool" where
  "isFloat t \<longleftrightarrow> numberKind t = kFloat"

definition isSigned :: "Type \<Rightarrow> bool" where
  "isSigned t \<longleftrightarrow> numberKind t = kSigned"

definition isUnsigned :: "Type \<Rightarrow> bool" where
  "isUnsigned t \<longleftrightarrow> numberKind t = kUnsigned"

definition isInteger :: "Type \<Rightarrow> bool" where
  "isInteger t \<longleftrightarrow> isSigned t \<or> isUnsigned t"

text \<open>\<^verbatim>\<open>Type::nonnullable()\<close>: the type under a nullable type, the type itself otherwise.\<close>

definition nonnullable :: "Type \<Rightarrow> Type" where
  "nonnullable t =
     (if typeKind t = kNullable then (case fComponentType t of Some c \<Rightarrow> c | None \<Rightarrow> t)
      else t)"

definition INT_MAX :: int where
  "INT_MAX = 2147483647"

text \<open>
  \<^verbatim>\<open>Context\<close> holds the built-in types. \<^verbatim>\<open>Type::coercionCost\<close>,
  \<^verbatim>\<open>Type::toCompound\<close> and \<^verbatim>\<open>Type::displayName\<close> are defined outside this file, so
  the context carries them as parameters: \<open>coercionCost ctx from to\<close> is
  \<^verbatim>\<open>from.coercionCost(to)\<close>, a C \<^verbatim>\<open>int\<close> with \<open>INT_MAX\<close> for an illegal coercion.
\<close>

record Context =
  fBool_Type :: Type
  fInt_Type :: Type
  fUInt_Type :: Type
  fFloatLiteral_Type :: Type
  fIntLiteral_Type :: Type
  fInvalid_Type :: Type
  fVoid_Type :: Type
  fFragmentProcessor_Type :: Type
  fFloat4_Type :: Type
  fFloat4x4_Type :: Type
  fSkCaps_Type :: Type
  fNull_Type :: Type
  coercionCost :: "Type \<Rightarrow> Type \<Rightarrow> int"
  toCompound :: "Type \<Rightarrow> int \<Rightarrow> int \<Rightarrow> Type"
  displayName :: "Type \<Rightarrow> string"

definition canCoerceTo :: "Context \<Rightarrow> Type \<Rightarrow> Type \<Rightarrow> bool" where
  "canCoerceTo ctx t other \<longleftrightarrow> coercionCost ctx t other \<noteq> INT_MAX"

subsection \<open>Symbols and expressions\<close>

text \<open>
  \<^verbatim>\<open>Modifiers::fFlags\<close> and \<^verbatim>\<open>Layout::fFlags\<close> are bit masks over the flag constants of
  two headers. A mask is modelled as the set of its flags, \<^verbatim>\<open>flags & f\<close> as
  membership. \<open>fKey\<close> says that the layout has a key, \<open>fCTypeIsDefault\<close> that its
  \<^verbatim>\<open>fCType\<close> is \<^verbatim>\<open>CType::kDefault\<close>.
\<close>

datatype Modifier_Flag =
    kConst_Flag | kIn_Flag | kOut_Flag | kUniform_Flag | kFlat_Flag | kNoPerspective_Flag
  | kReadOnly_Flag | kWriteOnly_Flag | kCoherent_Flag | kVolatile_Flag | kRestrict_Flag
  | kBuffer_Flag | kHasSideEffects_Flag | kPLS_Flag | kPLSIn_Flag | kPLSOut_Flag
  | kVarying_Flag | kInline_Flag

datatype Layout_Flag = kTracked_Flag | kSRGBUnpremul_Flag | kOtherLayout_Flag

record Layout =
  layout_fFlags :: "Layout_Flag set"
  fLocation :: int
  fIndex :: int
  fBuiltin :: int
  fKey :: bool
  fWhen :: string
  fMarker :: string
  fCTypeIsDefault :: bool

record Modifiers =
  fLayout :: Layout
  fFlags :: "Modifier_Flag set"

datatype Storage = kGlobal_Storage | kInterfaceBlock_Storage | kLocal_Storage
  | kParameter_Storage

datatype RefKind = kRead_RefKind | kWrite_RefKind | kReadWrite_RefKind | kPointer_RefKind

record ExternalValue =
  ev_fName :: string
  ev_type :: Type
  canWrite :: bool
  canCall :: bool
  callParameterTypes :: "Type list"
  callReturnType :: Type

record Parameter =
  param_fModifiers :: Modifiers
  param_fName :: string
  param_fType :: Type

record FunctionDeclaration =
  fn_fName :: string
  fParameters :: "Parameter list"
  fReturnType :: Type
  fn_fBuiltin :: bool
  fn_hasDefinition :: bool

datatype Expression_Kind =
    kBinary | kBoolLiteral | kConstructor | kDefined | kExternalFunctionCall
  | kExternalValue | kIntLiteral | kFieldAccess | kFloatLiteral | kFunctionReference
  | kFunctionCall | kIndex | kNullLiteral | kPrefix | kPostfix | kSetting | kSwizzle
  | kVariableReference | kTernary | kTypeReference

datatype Other_Kind = Defined | Setting

fun other_kind :: "Other_Kind \<Rightarrow> Expression_Kind" where
  "other_kind Defined = kDefined"
| "other_kind Setting = kSetting"

text \<open>
  An \<^verbatim>\<open>int64_t\<close> literal value is a 64-bit word read in two's complement; a
  \<^verbatim>\<open>double\<close> is kept as its 64-bit pattern (its arithmetic is a parameter, see below).
  Every node carries what the base class \<^verbatim>\<open>Expression\<close> stores: the source offset and
  the type, unless it takes them from an operand. \<open>OtherExpression\<close> stands for the node
  classes this development never looks into (settings, \<^verbatim>\<open>defined\<close> tests); it
  carries the answers of the base-class queries \<^verbatim>\<open>kind()\<close>, \<^verbatim>\<open>type()\<close> and
  \<^verbatim>\<open>isCompileTimeConstant()\<close>.
\<close>

type_synonym int64 = "64 word"
type_synonym double = "64 word"

datatype Expression =
    BoolLiteral int bool Type
  | IntLiteral int int64 Type
  | FloatLiteral int double Type
  | NullLiteral int Type
  | VariableReference int Variable RefKind
  | PrefixExpression Token_Kind Expression
  | PostfixExpression Expression Token_Kind
  | BinaryExpression int Expression Token_Kind Expression Type
  | TernaryExpression int Expression Expression Expression
  | Constructor int Type "Expression list"
  | Swizzle Expression "int list" Type
  | FieldAccess Expression int Type
  | IndexExpression Expression Expression Type
  | FunctionReference int "FunctionDeclaration list" Type
  | TypeReference int Type Type
  | FunctionCall int Type FunctionDeclaration "Expression list"
  | ExternalValueReference int ExternalValue Type
  | ExternalFunctionCall int Type ExternalValue "Expression list"
  | OtherExpression int Other_Kind Type bool
and Variable =
    Variable (fModifiers: Modifiers) (var_fName: string) (var_fType: Type)
      (fStorage: Storage) (fInitialValue: "Expression option")

fun kind :: "Expression \<Rightarrow> Expression_Kind" where
  "kind (BoolLiteral _ _ _) = kBoolLiteral"
| "kind (IntLiteral _ _ _) = kIntLiteral"
| "kind (FloatLiteral _ _ _) = kFloatLiteral"
| "kind (NullLiteral _ _) = kNullLiteral"
| "kind (VariableReference _ _ _) = kVariableReference"
| "kind (PrefixExpression _ _) = kPrefix"
| "kind (PostfixExpression _ _) = kPostfix"
| "kind (BinaryExpression _ _ _ _ _) = kBinary"
| "kind (TernaryExpression _ _ _ _) = kTernary"
| "kind (Constructor _ _ _) = kConstructor"
| "kind (Swizzle _ _ _) = kSwizzle"
| "kind (FieldAccess _ _ _) = kFieldAccess"
| "kind (IndexExpression _ _ _) = kIndex"
| "kind (FunctionReference _ _ _) = kFunctionReference"
| "kind (TypeReference _ _ _) = kTypeReference"
| "kind (FunctionCall _ _ _ _) = kFunctionCall"
| "kind (ExternalValueReference _ _ _) = kExternalValue"
| "kind (ExternalFunctionCall _ _ _ _) = kExternalFunctionCall"
| "kind (OtherExpression _ k _ _) = other_kind k"

text \<open>
  \<^verbatim>\<open>Expression::fOffset\<close> and \<^verbatim>\<open>Expression::type()\<close>. A prefix or postfix expression
  and a field, swizzle or index expression sit at the offset of their operand; a prefix,
  postfix or ternary expression has the type of its operand (of its true branch).
\<close>

fun fOffset :: "Expression \<Rightarrow> int" where
  "fOffset (BoolLiteral off _ _) = off"
| "fOffset (IntLiteral off _ _) = off"
| "fOffset (FloatLiteral off _ _) = off"
| "fOffset (NullLiteral off _) = off"
| "fOffset (VariableReference off _ _) = off"
| "fOffset (PrefixExpression _ e) = fOffset e"
| "fOffset (PostfixExpression e _) = fOffset e"
| "fOffset (BinaryExpression off _ _ _ _) = off"
| "fOffset (TernaryExpression off _ _ _) = off"
| "fOffset (Constructor off _ _) = off"
| "fOffset (Swizzle e _ _) = fOffset e"
| "fOffset (FieldAccess e _ _) = fOffset e"
| "fOffset (IndexExpression e _ _) = fOffset e"
| "fOffset (FunctionReference off _ _) = off"
| "fOffset (TypeReference off _ _) = off"
| "fOffset (FunctionCall off _ _ _) = off"
| "fOffset (ExternalValueReference off _ _) = off"
| "fOffset (ExternalFunctionCall off _ _ _) = off"
| "fOffset (OtherExpression off _ _ _) = off"

fun type_of :: "Expression \<Rightarrow> Type" where
  "type_of (BoolLiteral _ _ t) = t"
| "type_of (IntLiteral _ _ t) = t"
| "type_of (FloatLiteral _ _ t) = t"
| "type_of (NullLiteral _ t) = t"
| "type_of (VariableReference _ v _) = var_fType v"
| "type_of (PrefixExpression _ e) = type_of e"
| "type_of (PostfixExpression e _) = type_of e"
| "type_of (BinaryExpression _ _ _ _ t) = t"
| "type_of (TernaryExpression _ _ e _) = type_of e"
| "type_of (Constructor _ t _) = t"
| "type_of (Swizzle _ _ t) = t"
| "type_of (FieldAccess _ _ t) = t"
| "type_of (IndexExpression _ _ t) = t"
| "type_of (FunctionReference _ _ t) = t"
| "type_of (TypeReference _ _ t) = t"
| "type_of (FunctionCall _ t _ _) = t"
| "type_of (ExternalValueReference _ _ t) = t"
| "type_of (ExternalFunctionCall _ t _ _) = t"
| "type_of (OtherExpression _ _ t _) = t"

text \<open>
  \<^verbatim>\<open>Expression::isCompileTimeConstant()\<close>: false by default, true for the literals, for
  a constructor whose arguments all are, and for the negation of a constant.
\<close>

fun isCompileTimeConstant :: "Expression \<Rightarrow> bool" where
  "isCompileTimeConstant (BoolLiteral _ _ _) = True"
| "isCompileTimeConstant (IntLiteral _ _ _) = True"
| "isCompileTimeConstant (FloatLiteral _ _ _) = True"
| "isCompileTimeConstant (NullLiteral _ _) = True"
| "isCompileTimeConstant (Constructor _ _ args) = list_all isCompileTimeConstant args"
| "isCompileTimeConstant (PrefixExpression op e) =
     (op = TK_MINUS \<and> isCompileTimeConstant e)"
| "isCompileTimeConstant (OtherExpression _ _ _ c) = c"
| "isCompileTimeConstant _ = False"

text \<open>The literal constructors that take the context give the literal its default type.\<close>

definition mk_BoolLiteral :: "Context \<Rightarrow> int \<Rightarrow> bool \<Rightarrow> Expression" where
  "mk_BoolLiteral ctx off v = BoolLiteral off v (fBool_Type ctx)"

definition mk_IntLiteral :: "Context \<Rightarrow> int \<Rightarrow> int64 \<Rightarrow> Expression" where
  "mk_IntLiteral ctx off v = IntLiteral off v (fInt_Type ctx)"

definition mk_FloatLiteral :: "Context \<Rightarrow> int \<Rightarrow> double \<Rightarrow> Expression" where
  "mk_FloatLiteral ctx off v = FloatLiteral off v (fFloatLiteral_Type ctx)"

subsection \<open>The error reporter\<close>

type_synonym ErrorReporter = "(int \<times> string) list"

definition error :: "ErrorReporter \<Rightarrow> int \<Rightarrow> string \<Rightarrow> ErrorReporter" where
  "error errs off msg = errs @ [(off, msg)]"

subsection \<open>Constant folding\<close>

text \<open>
  \<^verbatim>\<open>short_circuit_boolean\<close>. Its first argument is a boolean literal (the source
  asserts it); \<^verbatim>\<open>clone()\<close> of a tree is the same value.
\<close>

definition short_circuit_boolean ::
  "Context \<Rightarrow> Expression \<Rightarrow> Token_Kind \<Rightarrow> Expression \<Rightarrow> Expression option" where
  "short_circuit_boolean ctx left op right =
     (case left of
        BoolLiteral off leftVal _ \<Rightarrow>
          if op = TK_LOGICALAND then
            (if leftVal then Some right else Some (mk_BoolLiteral ctx off False))
          else if op = TK_LOGICALOR then
            (if leftVal then Some (mk_BoolLiteral ctx off True) else Some right)
          else if op = TK_LOGICALXOR then
            (if leftVal then Some (PrefixExpression TK_LOGICALNOT right) else Some right)
          else None
      | _ \<Rightarrow> None)"

text \<open>
  The arithmetic of \<^verbatim>\<open>double\<close> is not modelled: it is a parameter of the folder.
  \<open>d_zero\<close> is the test \<^verbatim>\<open>!rightVal\<close>, \<open>d_neg\<close> the unary minus and \<open>d_of_int64\<close>
  the cast \<^verbatim>\<open>(double) value\<close> of an \<^verbatim>\<open>int64_t\<close>.
\<close>

record FloatArith =
  d_add :: "double \<Rightarrow> double \<Rightarrow> double"
  d_sub :: "double \<Rightarrow> double \<Rightarrow> double"
  d_mul :: "double \<Rightarrow> double \<Rightarrow> double"
  d_div :: "double \<Rightarrow> double \<Rightarrow> double"
  d_eq :: "double \<Rightarrow> double \<Rightarrow> bool"
  d_lt :: "double \<Rightarrow> double \<Rightarrow> bool"
  d_le :: "double \<Rightarrow> double \<Rightarrow> bool"
  d_zero :: "double \<Rightarrow> bool"
  d_neg :: "double \<Rightarrow> double"
  d_of_int64 :: "int64 \<Rightarrow> double"

definition INT64_MIN :: int64 where
  "INT64_MIN = word_of_int (- (2 ^ 63))"

text \<open>The casts \<^verbatim>\<open>(uint32_t) v\<close> of an \<^verbatim>\<open>int64_t\<close> and back into the literal.\<close>

definition to_uint32 :: "int64 \<Rightarrow> 32 word" where
  "to_uint32 v = ucast v"

definition of_uint32 :: "32 word \<Rightarrow> int64" where
  "of_uint32 v = ucast v"

text \<open>The macros \<^verbatim>\<open>RESULT(Int, op)\<close>, \<^verbatim>\<open>RESULT(Bool, op)\<close> and \<^verbatim>\<open>URESULT(Int, op)\<close>.\<close>

definition RESULT_Int ::
  "Context \<Rightarrow> Expression \<Rightarrow> int64 \<Rightarrow> ErrorReporter \<Rightarrow> Expression option \<times> ErrorReporter" where
  "RESULT_Int ctx left v errs = (Some (mk_IntLiteral ctx (fOffset left) v), errs)"

definition RESULT_Bool ::
  "Context \<Rightarrow> Expression \<Rightarrow> bool \<Rightarrow> ErrorReporter \<Rightarrow> Expression option \<times> ErrorReporter" where
  "RESULT_Bool ctx left v errs = (Some (mk_BoolLiteral ctx (fOffset left) v), errs)"

definition URESULT_Int ::
  "Context \<Rightarrow> Expression \<Rightarrow> 32 word \<Rightarrow> ErrorReporter \<Rightarrow> Expression option \<times> ErrorReporter" where
  "URESULT_Int ctx left v errs = RESULT_Int ctx left (of_uint32 v) errs"

text \<open>
  The block of \<^verbatim>\<open>constantFold\<close> for two integer literals. \<^verbatim>\<open>/\<close> and \<^verbatim>\<open>%\<close> on
  \<^verbatim>\<open>int64_t\<close> truncate towards zero.
\<close>

definition fold_int ::
  "Context \<Rightarrow> Expression \<Rightarrow> Token_Kind \<Rightarrow> Expression \<Rightarrow> int64 \<Rightarrow> int64 \<Rightarrow> ErrorReporter
     \<Rightarrow> Expression option \<times> ErrorReporter" where
  "fold_int ctx left op right leftVal rightVal errs =
     (case op of
        TK_PLUS \<Rightarrow> URESULT_Int ctx left (to_uint32 leftVal + to_uint32 rightVal) errs
      | TK_MINUS \<Rightarrow> URESULT_Int ctx left (to_uint32 leftVal - to_uint32 rightVal) errs
      | TK_STAR \<Rightarrow> URESULT_Int ctx left (to_uint32 leftVal * to_uint32 rightVal) errs
      | TK_SLASH \<Rightarrow>
          if leftVal = INT64_MIN \<and> rightVal = - 1 then
            (None, error errs (fOffset right) ''arithmetic overflow'')
          else if rightVal = 0 then
            (None, error errs (fOffset right) ''division by zero'')
          else RESULT_Int ctx left (word_of_int (sint leftVal sdiv sint rightVal)) errs
      | TK_PERCENT \<Rightarrow>
          if leftVal = INT64_MIN \<and> rightVal = - 1 then
            (None, error errs (fOffset right) ''arithmetic overflow'')
          else if rightVal = 0 then
            (None, error errs (fOffset right) ''division by zero'')
          else RESULT_Int ctx left (word_of_int (sint leftVal smod sint rightVal)) errs
      | TK_BITWISEAND \<Rightarrow> RESULT_Int ctx left (leftVal AND rightVal) errs
      | TK_BITWISEOR \<Rightarrow> RESULT_Int ctx left (leftVal OR rightVal) errs
      | TK_BITWISEXOR \<Rightarrow> RESULT_Int ctx left (leftVal XOR rightVal) errs
      | TK_EQEQ \<Rightarrow> RESULT_Bool ctx left (leftVal = rightVal) errs
      | TK_NEQ \<Rightarrow> RESULT_Bool ctx left (leftVal \<noteq> rightVal) errs
      | TK_GT \<Rightarrow> RESULT_Bool ctx left (sint leftVal > sint rightVal) errs
      | TK_GTEQ \<Rightarrow> RESULT_Bool ctx left (sint leftVal \<ge> sint rightVal) errs
      | TK_LT \<Rightarrow> RESULT_Bool ctx left (sint leftVal < sint rightVal) errs
      | TK_LTEQ \<Rightarrow> RESULT_Bool ctx left (sint leftVal \<le> sint rightVal) errs
      | TK_SHL \<Rightarrow>
          if 0 \<le> sint rightVal \<and> sint rightVal \<le> 31 then
            URESULT_Int ctx left (push_bit (unat (to_uint32 rightVal)) (to_uint32 leftVal)) errs
          else (None, error errs (fOffset right) ''shift value out of range'')
      | TK_SHR \<Rightarrow>
          if 0 \<le> sint rightVal \<and> sint rightVal \<le> 31 then
            URESULT_Int ctx left (drop_bit (unat (to_uint32 rightVal)) (to_uint32 leftVal)) errs
          else (None, error errs (fOffset right) ''shift value out of range'')
      | _ \<Rightarrow> (None, errs))"

text \<open>The block for two boolean literals.\<close>

definition fold_bool ::
  "Context \<Rightarrow> Expression \<Rightarrow> Token_Kind \<Rightarrow> bool \<Rightarrow> bool \<Rightarrow> ErrorReporter
     \<Rightarrow> Expression option \<times> ErrorReporter" where
  "fold_bool ctx left op leftVal rightVal errs =
     (case op of
        TK_LOGICALAND \<Rightarrow> RESULT_Bool ctx left (leftVal \<and> rightVal) errs
      | TK_LOGICALOR \<Rightarrow> RESULT_Bool ctx left (leftVal \<or> rightVal) errs
      | TK_LOGICALXOR \<Rightarrow> RESULT_Bool ctx left (leftVal \<noteq> rightVal) errs
      | _ \<Rightarrow> (None, errs))"

text \<open>The block for two floating-point literals.\<close>

definition RESULT_Float ::
  "Context \<Rightarrow> Expression \<Rightarrow> double \<Rightarrow> ErrorReporter \<Rightarrow> Expression option \<times> ErrorReporter" where
  "RESULT_Float ctx left v errs = (Some (mk_FloatLiteral ctx (fOffset left) v), errs)"

definition fold_float ::
  "Context \<Rightarrow> FloatArith \<Rightarrow> Expression \<Rightarrow> Token_Kind \<Rightarrow> Expression \<Rightarrow> double \<Rightarrow> double
     \<Rightarrow> ErrorReporter \<Rightarrow> Expression option \<times> ErrorReporter" where
  "fold_float ctx fa left op right leftVal rightVal errs =
     (case op of
        TK_PLUS \<Rightarrow> RESULT_Float ctx left (d_add fa leftVal rightVal) errs
      | TK_MINUS \<Rightarrow> RESULT_Float ctx left (d_sub fa leftVal rightVal) errs
      | TK_STAR \<Rightarrow> RESULT_Float ctx left (d_mul fa leftVal rightVal) errs
      | TK_SLASH \<Rightarrow>
          if \<not> d_zero fa rightVal then RESULT_Float ctx left (d_div fa leftVal rightVal) errs
          else (None, error errs (fOffset right) ''division by zero'')
      | TK_EQEQ \<Rightarrow> RESULT_Bool ctx left (d_eq fa leftVal rightVal) errs
      | TK_NEQ \<Rightarrow> RESULT_Bool ctx left (\<not> d_eq fa leftVal rightVal) errs
      | TK_GT \<Rightarrow> RESULT_Bool ctx left (d_lt fa rightVal leftVal) errs
      | TK_GTEQ \<Rightarrow> RESULT_Bool ctx left (d_le fa rightVal leftVal) errs
      | TK_LT \<Rightarrow> RESULT_Bool ctx left (d_lt fa leftVal rightVal) errs
      | TK_LTEQ \<Rightarrow> RESULT_Bool ctx left (d_le fa leftVal rightVal) errs
      | _ \<Rightarrow> (None, errs))"

text \<open>
  \<^verbatim>\<open>IRGenerator::constantFold\<close>. The last two blocks, for constant float vectors and
  for matrices, read the components of constructors through
  \<^verbatim>\<open>getFVecComponent\<close> and \<^verbatim>\<open>compareConstant\<close>, defined outside this file: they are
  the parameter \<open>foldCompound\<close>.
\<close>

type_synonym Folder =
  "Expression \<Rightarrow> Token_Kind \<Rightarrow> Expression \<Rightarrow> ErrorReporter \<Rightarrow> Expression option \<times> ErrorReporter"

definition constantFold :: "Context \<Rightarrow> FloatArith \<Rightarrow> Folder \<Rightarrow> Folder" where
  "constantFold ctx fa foldCompound left op right errs =
     (if kind left = kBoolLiteral \<and> \<not> isCompileTimeConstant right then
        (short_circuit_boolean ctx left op right, errs)
      else if kind right = kBoolLiteral \<and> \<not> isCompileTimeConstant left then
        (short_circuit_boolean ctx right op left, errs)
      else if \<not> isCompileTimeConstant left \<or> \<not> isCompileTimeConstant right then
        (None, errs)
      else
        (case left of
           BoolLiteral _ leftVal _ \<Rightarrow>
             (case right of
                BoolLiteral _ rightVal _ \<Rightarrow> fold_bool ctx left op leftVal rightVal errs
              | _ \<Rightarrow> foldCompound left op right errs)
         | IntLiteral _ leftVal _ \<Rightarrow>
             (case right of
                IntLiteral _ rightVal _ \<Rightarrow> fold_int ctx left op right leftVal rightVal errs
              | _ \<Rightarrow> foldCompound left op right errs)
         | FloatLiteral _ leftVal _ \<Rightarrow>
             (case right of
                FloatLiteral _ rightVal _ \<Rightarrow>
                  fold_float ctx fa left op right leftVal rightVal errs
              | _ \<Rightarrow> foldCompound left op right errs)
         | _ \<Rightarrow> foldCompound left op right errs))"


text \<open>
  The unsigned 32-bit wraparound of an integer, as the value of an integer literal: the
  residue modulo \<open>2 ^ 32\<close>, in \<open>[0, 2 ^ 32)\<close>.
\<close>

definition wrap32 :: "int \<Rightarrow> int64" where
  "wrap32 n = word_of_int (n mod 2 ^ 32)"

text \<open>
  A context for evaluating the definitions on concrete programs: the scalar types
  \<^verbatim>\<open>bool\<close>, \<^verbatim>\<open>int\<close>, \<^verbatim>\<open>uint\<close>, \<^verbatim>\<open>short\<close>, \<^verbatim>\<open>half\<close> and \<^verbatim>\<open>float\<close>, the float
  vectors over \<^verbatim>\<open>float\<close> and \<^verbatim>\<open>half\<close>, and a coercion cost that is 0 between equal
  types, the difference of priorities from a number to a number of higher priority
  (component-wise between vectors of one width), and \<open>INT_MAX\<close> otherwise.
\<close>

definition scalarType :: "string \<Rightarrow> NumberKind \<Rightarrow> int \<Rightarrow> Type" where
  "scalarType n k p = Type n kScalar k p 1 1 None []"

definition boolType :: Type where "boolType = scalarType ''bool'' kNonnumeric (- 1)"
definition intType :: Type where "intType = scalarType ''int'' kSigned 1"
definition uintType :: Type where "uintType = scalarType ''uint'' kUnsigned 1"
definition shortType :: Type where "shortType = scalarType ''short'' kSigned 0"
definition halfType :: Type where "halfType = scalarType ''half'' kFloat 2"
definition floatType :: Type where "floatType = scalarType ''float'' kFloat 3"
definition floatLiteralType :: Type where
  "floatLiteralType = scalarType ''$floatLiteral'' kFloat 3"
definition intLiteralType :: Type where
  "intLiteralType = scalarType ''$intLiteral'' kSigned 1"
definition invalidType :: Type where
  "invalidType = Type ''<INVALID>'' kOther kNonnumeric (- 1) (- 1) (- 1) None []"
definition voidType :: Type where
  "voidType = Type ''void'' kOther kNonnumeric (- 1) (- 1) (- 1) None []"
definition fragmentProcessorType :: Type where
  "fragmentProcessorType =
     Type ''fragmentProcessor'' kOther kNonnumeric (- 1) (- 1) (- 1) None []"
definition nullType :: Type where
  "nullType = Type ''null'' kOther kNonnumeric (- 1) (- 1) (- 1) None []"
definition skCapsType :: Type where
  "skCapsType = Type ''$sk_Caps'' kOther kNonnumeric (- 1) (- 1) (- 1) None []"

definition digit :: "int \<Rightarrow> string" where
  "digit n = (if n = 2 then ''2'' else if n = 3 then ''3'' else if n = 4 then ''4'' else ''?'')"

definition sampleToCompound :: "Type \<Rightarrow> int \<Rightarrow> int \<Rightarrow> Type" where
  "sampleToCompound t c r =
     (if c = 1 \<and> r = 1 then t
      else if r = 1 then Type (fName t @ digit c) kVector kNonnumeric (- 1) c 1 (Some t) []
      else Type (fName t @ digit c @ ''x'' @ digit r) kMatrix kNonnumeric (- 1) c r (Some t) [])"

fun sampleCoercionCost :: "Type \<Rightarrow> Type \<Rightarrow> int" where
  "sampleCoercionCost (Type n k nk p c r ct fs) (Type n' k' nk' p' c' r' ct' fs') =
     (if n = n' then 0
      else if k = kVector \<and> k' = kVector then
        (case (ct, ct') of
           (Some a, Some b) \<Rightarrow> if c = c' then sampleCoercionCost a b else INT_MAX
         | _ \<Rightarrow> INT_MAX)
      else if k = kScalar \<and> k' = kScalar \<and> nk \<noteq> kNonnumeric \<and> nk' \<noteq> kNonnumeric \<and> p' > p
        then p' - p
      else INT_MAX)"

definition sampleDisplayName :: "Type \<Rightarrow> string" where
  "sampleDisplayName t =
     (if fName t = ''$floatLiteral'' then ''float''
      else if fName t = ''$intLiteral'' then ''int'' else fName t)"

definition sampleContext :: Context where
  "sampleContext = \<lparr> fBool_Type = boolType, fInt_Type = intType, fUInt_Type = uintType,
     fFloatLiteral_Type = floatLiteralType, fIntLiteral_Type = intLiteralType,
     fInvalid_Type = invalidType, fVoid_Type = voidType,
     fFragmentProcessor_Type = fragmentProcessorType,
     fFloat4_Type = sampleToCompound floatType 4 1,
     fFloat4x4_Type = sampleToCompound floatType 4 4, fSkCaps_Type = skCapsType,
     fNull_Type = nullType,
     coercionCost = sampleCoercionCost, toCompound = sampleToCompound,
     displayName = sampleDisplayName \<rparr>"

text \<open>An arithmetic on bit patterns standing in for \<^verbatim>\<open>double\<close>, and no compound folding.\<close>

definition sampleFloatArith :: FloatArith where
  "sampleFloatArith = \<lparr> d_add = (+), d_sub = (-), d_mul = (*), d_div = (div),
     d_eq = (=), d_lt = (<), d_le = (\<le>), d_zero = (\<lambda>x. x = 0), d_neg = uminus,
     d_of_int64 = id \<rparr>"

definition noCompoundFold :: Folder where
  "noCompoundFold left op right errs = (None, errs)"

subsection \<open>Constant folding: properties\<close>

lemma uint_sint_mod32: "uint (a :: 64 word) mod 2 ^ 32 = sint a mod 2 ^ 32"
proof -
  have b: "uint a mod 2 ^ 64 = uint a"
    using uint_lt2p [of a] by simp
  have "sint a = uint a - 2 ^ 64 * of_bool (bit (uint a) 63)"
    using b by (simp add: sint_uint signed_take_bit_eq_take_bit_minus take_bit_eq_mod)
  then have "sint a = uint a - 2 ^ 32 * (2 ^ 32 * of_bool (bit (uint a) 63))"
    by simp
  then have "sint a mod 2 ^ 32 =
      (uint a - 2 ^ 32 * (2 ^ 32 * of_bool (bit (uint a) 63))) mod 2 ^ 32"
    by simp
  also have "\<dots> = uint a mod 2 ^ 32"
    by (metis mod_diff_right_eq mod_mult_self1_is_0 diff_zero)
  finally show ?thesis by simp
qed

lemma uint_to_uint32: "uint (to_uint32 a) = sint a mod 2 ^ 32"
proof -
  have "uint (ucast a :: 32 word) = uint a mod 2 ^ 32"
    by (simp add: unsigned_ucast_eq take_bit_eq_mod)
  then show ?thesis
    using uint_sint_mod32 [of a] by (simp add: to_uint32_def)
qed

lemma of_uint32_uint: "uint w = n \<Longrightarrow> of_uint32 w = word_of_int n"
  by (auto simp: of_uint32_def)

lemma of_uint32_add: "of_uint32 (to_uint32 a + to_uint32 b) = wrap32 (sint a + sint b)"
  unfolding wrap32_def
  by (rule of_uint32_uint) (simp add: uint_word_ariths uint_to_uint32 mod_simps)

lemma of_uint32_sub: "of_uint32 (to_uint32 a - to_uint32 b) = wrap32 (sint a - sint b)"
  unfolding wrap32_def
  by (rule of_uint32_uint) (simp add: uint_word_ariths uint_to_uint32 mod_simps)

lemma of_uint32_mul: "of_uint32 (to_uint32 a * to_uint32 b) = wrap32 (sint a * sint b)"
  unfolding wrap32_def
  by (rule of_uint32_uint) (simp add: uint_word_ariths uint_to_uint32 mod_simps)

lemma constantFold_IntLiteral:
  "constantFold ctx fa fc (IntLiteral lo a lt) op (IntLiteral ro b rt) errs =
     fold_int ctx (IntLiteral lo a lt) op (IntLiteral ro b rt) a b errs"
  by (simp add: constantFold_def)

text \<open>
  Claim C1. Folding two integer literals with \<open>+\<close>, \<open>-\<close> or \<open>*\<close> yields an integer
  literal (at the offset of the left operand) whose value is the unsigned 32-bit
  wraparound of the sum, difference or product of the operands' values, and reports
  nothing: the error list is returned as it was.
\<close>

theorem constantFold_int_wraparound:
  "constantFold ctx fa fc (IntLiteral lo a lt) TK_PLUS (IntLiteral ro b rt) errs =
     (Some (IntLiteral lo (wrap32 (sint a + sint b)) (fInt_Type ctx)), errs) \<and>
   constantFold ctx fa fc (IntLiteral lo a lt) TK_MINUS (IntLiteral ro b rt) errs =
     (Some (IntLiteral lo (wrap32 (sint a - sint b)) (fInt_Type ctx)), errs) \<and>
   constantFold ctx fa fc (IntLiteral lo a lt) TK_STAR (IntLiteral ro b rt) errs =
     (Some (IntLiteral lo (wrap32 (sint a * sint b)) (fInt_Type ctx)), errs)"
  by (simp add: constantFold_IntLiteral fold_int_def URESULT_Int_def RESULT_Int_def
      mk_IntLiteral_def of_uint32_add of_uint32_sub of_uint32_mul)

theorem constantFold_int_wraparound_witness:
  "constantFold sampleContext sampleFloatArith noCompoundFold
     (IntLiteral 7 2147483647 intType) TK_PLUS (IntLiteral 12 1 intType) [] =
     (Some (IntLiteral 7 2147483648 intType), [])"
  using constantFold_int_wraparound [of sampleContext sampleFloatArith noCompoundFold
      7 2147483647 intType 12 1 intType "[]"]
  by (simp add: wrap32_def sampleContext_def)


text \<open>
  Claim C2. Folding \<open>a / 0\<close> or \<open>a % 0\<close> on integer literals reports "division by zero"
  at the right operand and returns no node, for every \<open>a\<close>; folding
  \<open>INT64_MIN / -1\<close> or \<open>INT64_MIN % -1\<close> reports "arithmetic overflow" and returns no
  node. No literal is produced in any of these cases.
\<close>

theorem constantFold_int_division_errors:
  "constantFold ctx fa fc (IntLiteral lo a lt) TK_SLASH (IntLiteral ro 0 rt) errs =
     (None, errs @ [(ro, ''division by zero'')]) \<and>
   constantFold ctx fa fc (IntLiteral lo a lt) TK_PERCENT (IntLiteral ro 0 rt) errs =
     (None, errs @ [(ro, ''division by zero'')]) \<and>
   constantFold ctx fa fc (IntLiteral lo INT64_MIN lt) TK_SLASH (IntLiteral ro (- 1) rt) errs =
     (None, errs @ [(ro, ''arithmetic overflow'')]) \<and>
   constantFold ctx fa fc (IntLiteral lo INT64_MIN lt) TK_PERCENT (IntLiteral ro (- 1) rt) errs =
     (None, errs @ [(ro, ''arithmetic overflow'')])"
  by (simp add: constantFold_IntLiteral fold_int_def error_def)

theorem constantFold_int_division_errors_witness:
  "constantFold sampleContext sampleFloatArith noCompoundFold
     (IntLiteral 3 10 intType) TK_SLASH (IntLiteral 8 0 intType) [] =
     (None, [(8, ''division by zero'')]) \<and>
   constantFold sampleContext sampleFloatArith noCompoundFold
     (IntLiteral 3 (- 9223372036854775808) intType) TK_PERCENT (IntLiteral 8 (- 1) intType) [] =
     (None, [(8, ''arithmetic overflow'')])"
  using constantFold_int_division_errors [of sampleContext sampleFloatArith noCompoundFold
      3 10 intType 8 intType "[]"]
  by (simp add: INT64_MIN_def)

lemma kBoolLiteral_constant: "kind e = kBoolLiteral \<Longrightarrow> isCompileTimeConstant e"
proof (cases e)
  case (OtherExpression off k t c)
  assume "kind e = kBoolLiteral"
  with OtherExpression show ?thesis by (cases k) simp_all
qed simp_all

lemma constantFold_literal_left:
  "\<not> isCompileTimeConstant e \<Longrightarrow>
   constantFold ctx fa fc (BoolLiteral off b t) op e errs =
     (short_circuit_boolean ctx (BoolLiteral off b t) op e, errs)"
  by (simp add: constantFold_def)

lemma constantFold_literal_right:
  "\<not> isCompileTimeConstant e \<Longrightarrow>
   constantFold ctx fa fc e op (BoolLiteral off b t) errs =
     (short_circuit_boolean ctx (BoolLiteral off b t) op e, errs)"
  using kBoolLiteral_constant [of e] by (auto simp: constantFold_def)

text \<open>
  Claim C3. When one operand is a boolean literal \<open>b\<close> and the other operand \<open>e\<close> is not
  a compile-time constant, folding short-circuits whichever side the literal is on:
  \<open>b && e\<close> is \<open>e\<close> for true \<open>b\<close> and a false literal otherwise, \<open>b || e\<close> is a true
  literal for true \<open>b\<close> and \<open>e\<close> otherwise, \<open>b ^^ e\<close> is \<open>!e\<close> for true \<open>b\<close> and \<open>e\<close>
  otherwise. The new literal sits at the offset of the literal operand; nothing is
  reported.
\<close>

theorem constantFold_short_circuit:
  assumes "\<not> isCompileTimeConstant e"
  shows "constantFold ctx fa fc (BoolLiteral off b t) TK_LOGICALAND e errs =
           (Some (if b then e else BoolLiteral off False (fBool_Type ctx)), errs) \<and>
         constantFold ctx fa fc e TK_LOGICALAND (BoolLiteral off b t) errs =
           (Some (if b then e else BoolLiteral off False (fBool_Type ctx)), errs) \<and>
         constantFold ctx fa fc (BoolLiteral off b t) TK_LOGICALOR e errs =
           (Some (if b then BoolLiteral off True (fBool_Type ctx) else e), errs) \<and>
         constantFold ctx fa fc e TK_LOGICALOR (BoolLiteral off b t) errs =
           (Some (if b then BoolLiteral off True (fBool_Type ctx) else e), errs) \<and>
         constantFold ctx fa fc (BoolLiteral off b t) TK_LOGICALXOR e errs =
           (Some (if b then PrefixExpression TK_LOGICALNOT e else e), errs) \<and>
         constantFold ctx fa fc e TK_LOGICALXOR (BoolLiteral off b t) errs =
           (Some (if b then PrefixExpression TK_LOGICALNOT e else e), errs)"
  using assms
  by (simp add: constantFold_literal_left constantFold_literal_right
      short_circuit_boolean_def mk_BoolLiteral_def)

definition sampleVar :: "string \<Rightarrow> Type \<Rightarrow> Variable" where
  "sampleVar n t =
     Variable \<lparr> fLayout = \<lparr> layout_fFlags = {}, fLocation = - 1, fIndex = - 1, fBuiltin = - 1,
         fKey = False, fWhen = [], fMarker = [], fCTypeIsDefault = True \<rparr>, fFlags = {} \<rparr>
       n t kLocal_Storage None"

theorem constantFold_short_circuit_witness:
  "\<not> isCompileTimeConstant (VariableReference 4 (sampleVar ''ok'' boolType) kRead_RefKind) \<and>
   constantFold sampleContext sampleFloatArith noCompoundFold
     (VariableReference 4 (sampleVar ''ok'' boolType) kRead_RefKind) TK_LOGICALXOR
     (BoolLiteral 9 True boolType) [] =
     (Some (PrefixExpression TK_LOGICALNOT
        (VariableReference 4 (sampleVar ''ok'' boolType) kRead_RefKind)), [])"
proof -
  have h: "\<not> isCompileTimeConstant (VariableReference 4 (sampleVar ''ok'' boolType) kRead_RefKind)"
    by simp
  show ?thesis
    using h constantFold_short_circuit [OF h, of sampleContext sampleFloatArith noCompoundFold
        9 True boolType "[]"]
    by simp
qed


subsection \<open>Operand and result types of a binary expression\<close>

text \<open>
  \<^verbatim>\<open>determine_binary_type\<close> returns false or fills three out-parameters; the model
  returns \<open>None\<close> or the triple (left operand type, right operand type, result type).
  \<^verbatim>\<open>componentType()\<close> of a type without component dereferences a null pointer; the
  model fails there (vector and matrix types have a component).
\<close>

definition is_matrix_multiply :: "Type \<Rightarrow> Type \<Rightarrow> bool" where
  "is_matrix_multiply left right =
     (if typeKind left = kMatrix then typeKind right = kMatrix \<or> typeKind right = kVector
      else typeKind left = kVector \<and> typeKind right = kMatrix)"

lemma fComponentType_size:
  "fComponentType t = Some c \<Longrightarrow> size c < size t"
  by (cases t) auto

function determine_binary_type ::
  "Context \<Rightarrow> Token_Kind \<Rightarrow> Type \<Rightarrow> Type \<Rightarrow> (Type \<times> Type \<times> Type) option" where
  "determine_binary_type context op left right =
     (let isAssignment = IsAssignment op in
      if op = TK_EQ then
        (if canCoerceTo context right left then Some (left, left, left) else None)
      else if op = TK_EQEQ \<or> op = TK_NEQ then
        (if canCoerceTo context right left then Some (left, left, fBool_Type context)
         else if canCoerceTo context left right then Some (right, right, fBool_Type context)
         else None)
      else if op \<in> {TK_LOGICALOR, TK_LOGICALAND, TK_LOGICALXOR, TK_LOGICALOREQ,
                     TK_LOGICALANDEQ, TK_LOGICALXOREQ} then
        (if canCoerceTo context left (fBool_Type context) \<and>
            canCoerceTo context right (fBool_Type context)
         then Some (fBool_Type context, fBool_Type context, fBool_Type context) else None)
      else if (op = TK_STAREQ \<or> op = TK_STAR) \<and> is_matrix_multiply left right then
        (case fComponentType left of
           None \<Rightarrow> None
         | Some leftComponent \<Rightarrow>
           (case fComponentType right of
              None \<Rightarrow> None
            | Some rightComponent \<Rightarrow>
              (case determine_binary_type context TK_STAR leftComponent rightComponent of
                 None \<Rightarrow> None
               | Some (_, _, componentResult) \<Rightarrow>
                   let outLeftType = toCompound context componentResult (columns left) (rows left);
                       outRightType =
                         toCompound context componentResult (columns right) (rows right);
                       leftColumns = columns left;
                       leftRows = rows left;
                       rightColumns = (if typeKind right = kVector then rows right
                                       else columns right);
                       rightRows = (if typeKind right = kVector then columns right
                                    else rows right);
                       outResultType =
                         (if rightColumns > 1
                          then toCompound context componentResult rightColumns leftRows
                          else toCompound context componentResult leftRows rightColumns)
                   in if isAssignment \<and> (columns outResultType \<noteq> leftColumns \<or>
                                           rows outResultType \<noteq> leftRows) then None
                      else if leftColumns = rightRows
                        then Some (outLeftType, outRightType, outResultType)
                      else None)))
      else if op = TK_COMMA then Some (left, right, right)
      else
        (let isLogical = op \<in> {TK_LT, TK_GT, TK_LTEQ, TK_GTEQ};
             validMatrixOrVectorOp = op \<in> {TK_STAREQ, TK_STAR, TK_PLUSEQ, TK_MINUSEQ,
               TK_SLASHEQ, TK_PERCENTEQ, TK_SHLEQ, TK_SHREQ, TK_PLUS, TK_MINUS, TK_SLASH,
               TK_PERCENT};
             leftIsVectorOrMatrix = (typeKind left = kVector \<or> typeKind left = kMatrix);
             rightIsVectorOrMatrix = (typeKind right = kVector \<or> typeKind right = kMatrix)
         in
         if leftIsVectorOrMatrix \<and> validMatrixOrVectorOp \<and> typeKind right = kScalar then
           (case fComponentType left of
              None \<Rightarrow> None
            | Some leftComponent \<Rightarrow>
              (case determine_binary_type context op leftComponent right of
                 None \<Rightarrow> None
               | Some (outLeftType, outRightType, outResultType) \<Rightarrow>
                   Some (toCompound context outLeftType (columns left) (rows left),
                     outRightType,
                     if \<not> isLogical
                     then toCompound context outResultType (columns left) (rows left)
                     else outResultType)))
         else if \<not> isAssignment \<and> rightIsVectorOrMatrix \<and> validMatrixOrVectorOp \<and>
                 typeKind left = kScalar then
           (case fComponentType right of
              None \<Rightarrow> None
            | Some rightComponent \<Rightarrow>
              (case determine_binary_type context op left rightComponent of
                 None \<Rightarrow> None
               | Some (outLeftType, outRightType, outResultType) \<Rightarrow>
                   Some (outLeftType,
                     toCompound context outRightType (columns right) (rows right),
                     if \<not> isLogical
                     then toCompound context outResultType (columns right) (rows right)
                     else outResultType)))
         else
           (let rightToLeftCost = coercionCost context right left;
                leftToRightCost = (if isAssignment then INT_MAX
                                   else coercionCost context left right)
            in
            if (typeKind left = kScalar \<and> typeKind right = kScalar) \<or>
               (leftIsVectorOrMatrix \<and> validMatrixOrVectorOp) then
              (if rightToLeftCost < leftToRightCost then
                 Some (left, left, if isLogical then fBool_Type context else left)
               else if leftToRightCost \<noteq> INT_MAX then
                 Some (right, right, if isLogical then fBool_Type context else right)
               else None)
            else None)))"
  by pat_completeness auto
termination
  by (relation "measure (\<lambda>(context, op, left, right). size left + size right)")
     (auto dest: fComponentType_size intro: add_less_mono)



declare determine_binary_type.simps [simp del]

text \<open>The flag \<^verbatim>\<open>isLogical\<close> of \<^verbatim>\<open>determine_binary_type\<close>: the relational operators.\<close>

definition isLogical :: "Token_Kind \<Rightarrow> bool" where
  "isLogical op \<longleftrightarrow> op \<in> {TK_LT, TK_GT, TK_LTEQ, TK_GTEQ}"

subsection \<open>Binary types: properties\<close>









subsection \<open>IR statements, symbols and the generator state\<close>

record VarDeclaration =
  fVar :: Variable
  fSizes :: "Expression option list"
  fValue :: "Expression option"

record VarDeclarations =
  decls_fOffset :: int
  fBaseType :: Type
  fVars :: "VarDeclaration list"

text \<open>
  The statement nodes. A block records whether it is a scope (\<^verbatim>\<open>fIsScope\<close>); the
  pointers from blocks, loops and switches to their symbol tables are left out.
\<close>

datatype Statement =
    Block int "Statement list" bool
  | VarDeclarationsStatement VarDeclarations
  | IfStatement int bool Expression Statement "Statement option"
  | ForStatement int "Statement option" "Expression option" "Expression option" Statement
  | WhileStatement int Expression Statement
  | DoStatement int Statement Expression
  | SwitchStatement int bool Expression "SwitchCase list"
  | ExpressionStatement Expression
  | ReturnStatement int "Expression option"
  | BreakStatement int
  | ContinueStatement int
  | DiscardStatement int
  | Nop
and SwitchCase = SwitchCase int "Expression option" "Statement list"

datatype Symbol =
    TypeSymbol Type
  | VariableSymbol Variable
  | FunctionDeclarationSymbol FunctionDeclaration
  | UnresolvedFunctionSymbol "FunctionDeclaration list"
  | FieldSymbol Variable int
  | ExternalSymbol ExternalValue

text \<open>
  Modelled from the spec: the class \<^verbatim>\<open>SymbolTable\<close> is defined outside this file. The
  spec: nested scopes with parent links; "lookups walk outward through parent chain
  until found or exhausted"; \<^verbatim>\<open>push()\<close> creates a child scope of the current one and
  \<^verbatim>\<open>pop()\<close> returns to the parent; declaring a name "fails (reports already defined)
  if name exists in the current scope only". The current table is the list of scopes,
  innermost first; a scope lists its declarations, latest first.
\<close>

type_synonym Scope = "(string \<times> Symbol) list"
type_synonym SymbolTable = "Scope list"

fun symbolLookup :: "SymbolTable \<Rightarrow> string \<Rightarrow> Symbol option" where
  "symbolLookup [] name = None"
| "symbolLookup (scope # parents) name =
     (case map_of scope name of
        Some s \<Rightarrow> Some s
      | None \<Rightarrow> symbolLookup parents name)"

datatype Program_Kind = kFragment_Kind | kVertex_Kind | kGeometry_Kind
  | kFragmentProcessor_Kind | kPipelineStage_Kind | kGeneric_Kind

record Inputs =
  fRTWidth :: bool
  fRTHeight :: bool
  inputs_fFlipY :: bool

text \<open>
  What the generator reads of \<^verbatim>\<open>Program::Settings\<close>: the flip flag, whether
  capabilities are present and then whether they name a frag-coord conventions extension
  and support geometry-shader invocations, and the inline threshold.
\<close>

record Settings =
  settings_fFlipY :: bool
  hasCaps :: bool
  hasFragCoordConventionsExtension :: bool
  gsInvocationsSupport :: bool
  fInlineThreshold :: int

text \<open>
  The mutable fields of \<^verbatim>\<open>IRGenerator\<close>. \<open>fFileSections\<close> are the names of the
  section declarations at the root of the parsed file, \<open>fRTAdjust\<close> is the variable the
  pointer of that name refers to, if any.
\<close>

record IRGenerator =
  fKind :: Program_Kind
  fSettings :: Settings
  fIsBuiltinCode :: bool
  fSymbolTable :: SymbolTable
  fLoopLevel :: int
  fSwitchLevel :: int
  fErrors :: ErrorReporter
  fExtraStatements :: "Statement list"
  fTmpSwizzleCounter :: int
  fCanInline :: bool
  fInputs :: Inputs
  fRTAdjust :: "Variable option"
  fCurrentFunction :: "FunctionDeclaration option"
  fReferencedIntrinsics :: "FunctionDeclaration list"
  fFileSections :: "string list"

text \<open>\<^verbatim>\<open>fErrors.error(offset, msg)\<close> on the generator.\<close>

definition report :: "IRGenerator \<Rightarrow> int \<Rightarrow> string \<Rightarrow> IRGenerator" where
  "report g off msg = g \<lparr> fErrors := error (fErrors g) off msg \<rparr>"

definition pushSymbolTable :: "IRGenerator \<Rightarrow> IRGenerator" where
  "pushSymbolTable g = g \<lparr> fSymbolTable := [] # fSymbolTable g \<rparr>"

definition popSymbolTable :: "IRGenerator \<Rightarrow> IRGenerator" where
  "popSymbolTable g = g \<lparr> fSymbolTable := tl (fSymbolTable g) \<rparr>"

text \<open>The apostrophe of the messages, and \<^verbatim>\<open>to_string\<close> of an integer.\<close>

definition q :: string where
  "q = [CHR 0x27]"

definition decimal_digit :: "nat \<Rightarrow> char" where
  "decimal_digit n = ''0123456789'' ! n"

fun nat_to_string :: "nat \<Rightarrow> string" where
  "nat_to_string n =
     (if n < 10 then [decimal_digit n]
      else nat_to_string (n div 10) @ [decimal_digit (n mod 10)])"

declare nat_to_string.simps [simp del]

definition to_string :: "int \<Rightarrow> string" where
  "to_string i = (if i < 0 then ''-'' @ nat_to_string (nat (- i)) else nat_to_string (nat i))"

text \<open>
  The collaborators of the generator that are defined outside this file are parameters:
  \<^item> \<open>exprCoercionCost e t\<close> is the virtual \<^verbatim>\<open>e.coercionCost(t)\<close>;
  \<^item> \<open>determineFinalTypes f args\<close> is \<^verbatim>\<open>f.determineFinalTypes(args, &types, &ret)\<close>,
    \<open>None\<close> when it returns false;
  \<^item> \<open>isSafeToInline\<close> and \<open>inlineCall\<close> are the inliner; \<open>inlineCall\<close> returns the
    inlined body, the replacement expression and the symbol table it has added to;
  \<^item> \<open>floatArith\<close> and \<open>foldCompound\<close> are the parameters of constant folding;
  \<^item> \<open>copyIntrinsicIfNeeded\<close> copies a referenced intrinsic into the program;
  \<^item> the numbers of the built-in variables \<^verbatim>\<open>SK_WIDTH_BUILTIN\<close>,
    \<^verbatim>\<open>SK_HEIGHT_BUILTIN\<close> and \<^verbatim>\<open>SK_FRAGCOORD_BUILTIN\<close> are macros of a header, and
    \<^verbatim>\<open>Compiler::RTADJUST_NAME\<close> and \<^verbatim>\<open>Compiler::OperatorName\<close> belong to the compiler;
  \<^item> \<open>getCap\<close> reads the capability map, \<open>getChild\<close> is
    \<^verbatim>\<open>ExternalValue::getChild\<close>, \<open>convertTypeField\<close> looks an enum member up in the program
    elements, and \<open>getNormalizeSkPositionCode\<close> builds the statement that normalizes
    \<^verbatim>\<open>sk_Position\<close>;
  \<^item> \<open>SK_DEBUG\<close> tells whether the build compiles the assertions in: a failed
    \<^verbatim>\<open>SkASSERT\<close> aborts in a debug build and is no code at all in a release build;
  \<^item> \<open>nested_call\<close> is the call \<^verbatim>\<open>this->call(-1, ctor, args)\<close> that \<^verbatim>\<open>coerce\<close>
    makes to build a scalar constructor. \<^verbatim>\<open>call\<close> coerces its arguments in turn, so
    the recursion is left open: what is proved holds for every behaviour of the nested
    call.
\<close>

record Ext =
  floatArith :: FloatArith
  foldCompound :: Folder
  exprCoercionCost :: "Expression \<Rightarrow> Type \<Rightarrow> int"
  determineFinalTypes :: "FunctionDeclaration \<Rightarrow> Expression list \<Rightarrow> (Type list \<times> Type) option"
  isSafeToInline :: "Expression \<Rightarrow> int \<Rightarrow> bool"
  inlineCall ::
    "Expression \<Rightarrow> SymbolTable \<Rightarrow> Statement option \<times> Expression option \<times> SymbolTable"
  copyIntrinsicIfNeeded :: "FunctionDeclaration \<Rightarrow> IRGenerator \<Rightarrow> IRGenerator"
  SK_WIDTH_BUILTIN :: int
  SK_HEIGHT_BUILTIN :: int
  SK_FRAGCOORD_BUILTIN :: int
  RTADJUST_NAME :: string
  OperatorName :: "Token_Kind \<Rightarrow> string"
  getCap :: "int \<Rightarrow> string \<Rightarrow> IRGenerator \<Rightarrow> Expression option \<times> IRGenerator"
  getChild :: "ExternalValue \<Rightarrow> string \<Rightarrow> ExternalValue option"
  convertTypeField ::
    "int \<Rightarrow> Type \<Rightarrow> string \<Rightarrow> IRGenerator \<Rightarrow> Expression option \<times> IRGenerator"
  getNormalizeSkPositionCode :: "IRGenerator \<Rightarrow> Statement"
  SK_DEBUG :: bool
  nested_call ::
    "int \<Rightarrow> Expression \<Rightarrow> Expression list \<Rightarrow> IRGenerator \<Rightarrow> Expression option \<times> IRGenerator"

subsection \<open>Identifiers and coercion\<close>

text \<open>\<^verbatim>\<open>IRGenerator::checkValid\<close>.\<close>

definition checkValid :: "Context \<Rightarrow> Expression \<Rightarrow> IRGenerator \<Rightarrow> IRGenerator" where
  "checkValid ctx expr g =
     (if kind expr = kFunctionReference then
        report g (fOffset expr) ''expected '(' to begin function call''
      else if kind expr = kTypeReference then
        report g (fOffset expr) ''expected '(' to begin constructor invocation''
      else if type_eq (type_of expr) (fInvalid_Type ctx) then
        report g (fOffset expr) ''invalid expression''
      else g)"

text \<open>
  \<^verbatim>\<open>IRGenerator::convertIdentifier\<close>, of an identifier node at \<open>offset\<close> naming
  \<open>name\<close>. The type of a field access is the type of the field in the owner's type; a
  field index outside the owner's fields is an out-of-range read in the source and gives
  no expression here.
\<close>

definition noteBuiltin :: "Ext \<Rightarrow> Variable \<Rightarrow> IRGenerator \<Rightarrow> IRGenerator" where
  "noteBuiltin ext var g =
     (let b = fBuiltin (fLayout (fModifiers var)); inputs = fInputs g in
      if b = SK_WIDTH_BUILTIN ext then g \<lparr> fInputs := inputs \<lparr> fRTWidth := True \<rparr> \<rparr>
      else if b = SK_HEIGHT_BUILTIN ext then g \<lparr> fInputs := inputs \<lparr> fRTHeight := True \<rparr> \<rparr>
      else if b = SK_FRAGCOORD_BUILTIN ext then
        (if settings_fFlipY (fSettings g) \<and>
            (\<not> hasCaps (fSettings g) \<or> \<not> hasFragCoordConventionsExtension (fSettings g))
         then g \<lparr> fInputs := inputs \<lparr> inputs_fFlipY := True, fRTHeight := True \<rparr> \<rparr>
         else g \<lparr> fInputs := inputs \<lparr> inputs_fFlipY := True \<rparr> \<rparr>)
      else g)"

definition checkInVariable :: "Context \<Rightarrow> int \<Rightarrow> Variable \<Rightarrow> IRGenerator \<Rightarrow> IRGenerator" where
  "checkInVariable ctx offset var g =
     (if fKind g = kFragmentProcessor_Kind \<and>
         kIn_Flag \<in> fFlags (fModifiers var) \<and>
         kUniform_Flag \<notin> fFlags (fModifiers var) \<and>
         \<not> fKey (fLayout (fModifiers var)) \<and>
         fBuiltin (fLayout (fModifiers var)) = - 1 \<and>
         \<not> type_eq (nonnullable (var_fType var)) (fFragmentProcessor_Type ctx) \<and>
         typeKind (var_fType var) \<noteq> kSampler
      then
        (if ''setData'' \<in> set (fFileSections g) then g
         else report g offset
           (q @ ''in'' @ q @ '' variable must be either '' @ q @ ''uniform'' @ q @ '' or '' @ q @
            ''layout(key)'' @ q @ '', or there must be a custom @setData function''))
      else g)"

definition convertIdentifier ::
  "Ext \<Rightarrow> Context \<Rightarrow> int \<Rightarrow> string \<Rightarrow> IRGenerator \<Rightarrow> Expression option \<times> IRGenerator" where
  "convertIdentifier ext ctx offset name g =
     (case symbolLookup (fSymbolTable g) name of
        None \<Rightarrow> (None, report g offset (''unknown identifier '' @ q @ name @ q))
      | Some result \<Rightarrow>
          (case result of
             FunctionDeclarationSymbol f \<Rightarrow>
               (Some (FunctionReference offset [f] (fInvalid_Type ctx)), g)
           | UnresolvedFunctionSymbol fs \<Rightarrow>
               (Some (FunctionReference offset fs (fInvalid_Type ctx)), g)
           | VariableSymbol var \<Rightarrow>
               (Some (VariableReference offset var kRead_RefKind),
                checkInVariable ctx offset var (noteBuiltin ext var g))
           | FieldSymbol owner fieldIndex \<Rightarrow>
               (if 0 \<le> fieldIndex \<and> nat fieldIndex < length (fFields (var_fType owner)) then
                  (Some (FieldAccess (VariableReference offset owner kRead_RefKind) fieldIndex
                     (snd (fFields (var_fType owner) ! nat fieldIndex))), g)
                else (None, g))
           | TypeSymbol t \<Rightarrow> (Some (TypeReference offset t (fInvalid_Type ctx)), g)
           | ExternalSymbol r \<Rightarrow> (Some (ExternalValueReference offset r (ev_type r)), g)))"

text \<open>
  \<^verbatim>\<open>IRGenerator::coerce\<close>. A null \<^verbatim>\<open>expr\<close> is \<open>None\<close>. When the constructor's
  identifier does not resolve, the source prints a message and fails an assertion; the
  model returns no expression.
\<close>

definition coerce ::
  "Ext \<Rightarrow> Context \<Rightarrow> Expression option \<Rightarrow> Type \<Rightarrow> IRGenerator
     \<Rightarrow> Expression option \<times> IRGenerator" where
  "coerce ext ctx expr_opt type g =
     (case expr_opt of
        None \<Rightarrow> (None, g)
      | Some expr \<Rightarrow>
          if type_eq (type_of expr) type then (Some expr, g)
          else
            (let g1 = checkValid ctx expr g in
             if type_eq (type_of expr) (fInvalid_Type ctx) then (None, g1)
             else if exprCoercionCost ext expr type = INT_MAX then
               (None, report g1 (fOffset expr)
                  (''expected '' @ q @ displayName ctx type @ q @ '', but found '' @ q @
                   displayName ctx (type_of expr) @ q))
             else if typeKind type = kScalar then
               (let name = (if type_eq type (fFloatLiteral_Type ctx) then ''float''
                            else if type_eq type (fIntLiteral_Type ctx) then ''int''
                            else fName type)
                in case convertIdentifier ext ctx (- 1) name g1 of
                     (None, g2) \<Rightarrow> (None, g2)
                   | (Some ctor, g2) \<Rightarrow> nested_call ext (- 1) ctor [expr] g2)
             else if kind expr = kNullLiteral then
               (Some (NullLiteral (fOffset expr) type), g1)
             else (Some (Constructor (- 1) type [expr]), g1)))"


text \<open>
  Claim C4. Coercing an expression to the type it already has returns the expression
  itself: no constructor is wrapped around it, nothing is reported and the generator is
  left as it was.
\<close>

theorem coerce_same_type_identity:
  assumes "type_eq (type_of x) T"
  shows "coerce ext ctx (Some x) T g = (Some x, g)"
  using assms by (simp add: coerce_def)


subsection \<open>Assignment targets\<close>

text \<open>
  \<^verbatim>\<open>IRGenerator::checkSwizzleWrite\<close>: the loop over the components of the swizzle (at
  \<open>offset\<close>) with the bit set \<^verbatim>\<open>bits\<close> of the components seen so far.
\<close>

fun checkSwizzleWriteLoop ::
  "int \<Rightarrow> int list \<Rightarrow> int \<Rightarrow> IRGenerator \<Rightarrow> bool \<times> IRGenerator" where
  "checkSwizzleWriteLoop offset [] bits g = (True, g)"
| "checkSwizzleWriteLoop offset (idx # rest) bits g =
     (if idx < 0 then
        (False, report g offset ''cannot write to a swizzle mask containing a constant'')
      else
        (let b = push_bit (nat idx) (1 :: int) in
         if bits AND b \<noteq> 0 then
           (False, report g offset ''cannot write to the same swizzle field more than once'')
         else checkSwizzleWriteLoop offset rest (bits OR b) g))"

definition checkSwizzleWrite :: "int \<Rightarrow> int list \<Rightarrow> IRGenerator \<Rightarrow> bool \<times> IRGenerator" where
  "checkSwizzleWrite offset fComponents g = checkSwizzleWriteLoop offset fComponents 0 g"

text \<open>
  \<^verbatim>\<open>IRGenerator::setRefKind\<close>. The source updates the reference kind of the variable
  reference in place; the model returns the updated expression with the verdict.
\<close>

fun setRefKind ::
  "Expression \<Rightarrow> RefKind \<Rightarrow> IRGenerator \<Rightarrow> bool \<times> Expression \<times> IRGenerator" where
  "setRefKind (VariableReference off var rk) refKind g =
     (if fFlags (fModifiers var) \<inter> {kConst_Flag, kUniform_Flag, kVarying_Flag} \<noteq> {} then
        (False, VariableReference off var rk,
         report g off (''cannot modify immutable variable '' @ q @ var_fName var @ q))
      else (True, VariableReference off var refKind, g))"
| "setRefKind (FieldAccess base i t) refKind g =
     (case setRefKind base refKind g of
        (ok, base', g') \<Rightarrow> (ok, FieldAccess base' i t, g'))"
| "setRefKind (Swizzle base comps t) refKind g =
     (case checkSwizzleWrite (fOffset base) comps g of
        (False, g1) \<Rightarrow> (False, Swizzle base comps t, g1)
      | (True, g1) \<Rightarrow>
          (case setRefKind base refKind g1 of
             (ok, base', g2) \<Rightarrow> (ok, Swizzle base' comps t, g2)))"
| "setRefKind (IndexExpression base idx t) refKind g =
     (case setRefKind base refKind g of
        (ok, base', g') \<Rightarrow> (ok, IndexExpression base' idx t, g'))"
| "setRefKind (TernaryExpression off test ifTrue ifFalse) refKind g =
     (case setRefKind ifTrue refKind g of
        (False, ifTrue', g1) \<Rightarrow> (False, TernaryExpression off test ifTrue' ifFalse, g1)
      | (True, ifTrue', g1) \<Rightarrow>
          (case setRefKind ifFalse refKind g1 of
             (ok, ifFalse', g2) \<Rightarrow> (ok, TernaryExpression off test ifTrue' ifFalse', g2)))"
| "setRefKind (ExternalValueReference off v t) refKind g =
     (if \<not> canWrite v then
        (False, ExternalValueReference off v t,
         report g off (''cannot modify immutable external value '' @ q @ ev_fName v @ q))
      else (True, ExternalValueReference off v t, g))"
| "setRefKind e refKind g = (False, e, report g (fOffset e) ''cannot assign to this expression'')"

subsection \<open>Constructors and calls\<close>

text \<open>
  The unchecked downcasts \<^verbatim>\<open>as<IntLiteral>().fValue\<close> and \<^verbatim>\<open>as<FloatLiteral>().fValue\<close>,
  used only behind a test of the node kind.
\<close>

definition intLiteralValue :: "Expression \<Rightarrow> int64" where
  "intLiteralValue e = (case e of IntLiteral _ v _ \<Rightarrow> v | _ \<Rightarrow> 0)"

definition floatLiteralValue :: "Expression \<Rightarrow> double" where
  "floatLiteralValue e = (case e of FloatLiteral _ v _ \<Rightarrow> v | _ \<Rightarrow> 0)"

text \<open>
  \<^verbatim>\<open>IRGenerator::convertNumberConstructor\<close>. The two coercions of the boolean case
  are made from left to right; when one of them fails the source builds a ternary
  expression around a null pointer, the model returns no expression.
\<close>

definition convertNumberConstructor ::
  "Ext \<Rightarrow> Context \<Rightarrow> int \<Rightarrow> Type \<Rightarrow> Expression list \<Rightarrow> IRGenerator
     \<Rightarrow> Expression option \<times> IRGenerator" where
  "convertNumberConstructor ext ctx offset type args g =
     (case args of
        [arg] \<Rightarrow>
          (let argType = type_of arg in
           if type_eq type argType then (Some arg, g)
           else if isFloat type \<and> kind arg = kFloatLiteral then
             (Some (FloatLiteral offset (floatLiteralValue arg) type), g)
           else if isFloat type \<and> kind arg = kIntLiteral then
             (Some (FloatLiteral offset (d_of_int64 (floatArith ext) (intLiteralValue arg)) type),
              g)
           else if kind arg = kIntLiteral \<and>
                   (type_eq type (fInt_Type ctx) \<or> type_eq type (fUInt_Type ctx)) then
             (Some (IntLiteral offset (intLiteralValue arg) type), g)
           else if type_eq argType (fBool_Type ctx) then
             (case coerce ext ctx (Some (mk_IntLiteral ctx offset 1)) type g of
                (one, g1) \<Rightarrow>
                  (case coerce ext ctx (Some (mk_IntLiteral ctx offset 0)) type g1 of
                     (zero, g2) \<Rightarrow>
                       (case (one, zero) of
                          (Some ifTrue, Some ifFalse) \<Rightarrow>
                            (Some (TernaryExpression offset arg ifTrue ifFalse), g2)
                        | _ \<Rightarrow> (None, g2))))
           else if \<not> isNumber argType then
             (None, report g offset
                (''invalid argument to '' @ q @ displayName ctx type @ q @
                 '' constructor (expected a number or bool, but found '' @ q @
                 displayName ctx argType @ q @ '')''))
           else (Some (Constructor offset type [arg]), g))
      | _ \<Rightarrow>
          (None, report g offset
             (''invalid arguments to '' @ q @ displayName ctx type @ q @
              '' constructor, (expected exactly 1 argument, but found '' @
              to_string (int (length args)) @ '')'')))"

definition component_count :: "Type \<Rightarrow> int" where
  "component_count type =
     (case typeKind type of
        kVector \<Rightarrow> columns type
      | kMatrix \<Rightarrow> columns type * rows type
      | _ \<Rightarrow> 1)"

text \<open>
  \<^verbatim>\<open>type.componentType().isNumber()\<close>; \<open>None\<close> where the type has no component (a
  null dereference in the source).
\<close>

definition componentIsNumber :: "Type \<Rightarrow> bool option" where
  "componentIsNumber t = map_option isNumber (fComponentType t)"

text \<open>The loop of \<^verbatim>\<open>convertCompoundConstructor\<close> over the arguments, counting scalars.\<close>

fun compoundArguments ::
  "Ext \<Rightarrow> Context \<Rightarrow> int \<Rightarrow> Type \<Rightarrow> Expression list \<Rightarrow> int \<Rightarrow> IRGenerator
     \<Rightarrow> (Expression list \<times> int) option \<times> IRGenerator" where
  "compoundArguments ext ctx offset type [] actual g = (Some ([], actual), g)"
| "compoundArguments ext ctx offset type (arg # rest) actual g =
     (let argType = type_of arg in
      if typeKind argType = kVector then
        (if componentIsNumber type = None \<or> componentIsNumber argType = None then (None, g)
         else if componentIsNumber type \<noteq> componentIsNumber argType then
           (None, report g offset
              (q @ displayName ctx argType @ q @ '' is not a valid parameter to '' @ q @
               displayName ctx type @ q @ '' constructor''))
         else
           (case compoundArguments ext ctx offset type rest (actual + columns argType) g of
              (None, g1) \<Rightarrow> (None, g1)
            | (Some (rest', n), g1) \<Rightarrow> (Some (arg # rest', n), g1)))
      else if typeKind argType = kScalar then
        (if typeKind type \<noteq> kScalar then
           (case fComponentType type of
              None \<Rightarrow> (None, g)
            | Some component \<Rightarrow>
                (case coerce ext ctx (Some arg) component g of
                   (None, g1) \<Rightarrow> (None, g1)
                 | (Some arg', g1) \<Rightarrow>
                     (case compoundArguments ext ctx offset type rest (actual + 1) g1 of
                        (None, g2) \<Rightarrow> (None, g2)
                      | (Some (rest', n), g2) \<Rightarrow> (Some (arg' # rest', n), g2))))
         else
           (case compoundArguments ext ctx offset type rest (actual + 1) g of
              (None, g1) \<Rightarrow> (None, g1)
            | (Some (rest', n), g1) \<Rightarrow> (Some (arg # rest', n), g1)))
      else
        (None, report g offset
           (q @ displayName ctx argType @ q @ '' is not a valid parameter to '' @ q @
            displayName ctx type @ q @ '' constructor'')))"

text \<open>
  \<^verbatim>\<open>IRGenerator::convertCompoundConstructor\<close>, for a vector or matrix type (the source
  asserts it).
\<close>

definition convertCompoundConstructor ::
  "Ext \<Rightarrow> Context \<Rightarrow> int \<Rightarrow> Type \<Rightarrow> Expression list \<Rightarrow> IRGenerator
     \<Rightarrow> Expression option \<times> IRGenerator" where
  "convertCompoundConstructor ext ctx offset type args g =
     (if typeKind type = kMatrix \<and> length args = 1 \<and>
         typeKind (type_of (hd args)) = kMatrix then
        (Some (Constructor offset type args), g)
      else
        (let expected = rows type * columns type in
         if length args \<noteq> 1 \<or> expected \<noteq> component_count (type_of (hd args)) \<or>
            componentIsNumber type \<noteq> componentIsNumber (type_of (hd args)) then
           (case compoundArguments ext ctx offset type args 0 g of
              (None, g1) \<Rightarrow> (None, g1)
            | (Some (args', actual), g1) \<Rightarrow>
                if actual \<noteq> 1 \<and> actual \<noteq> expected then
                  (None, report g1 offset
                     (''invalid arguments to '' @ q @ displayName ctx type @ q @
                      '' constructor (expected '' @ to_string expected @
                      '' scalars, but found '' @ to_string actual @ '')''))
                else (Some (Constructor offset type args'), g1))
         else (Some (Constructor offset type args), g)))"

text \<open>Coercing every argument to one type, stopping at the first failure.\<close>

fun coerceEach ::
  "Ext \<Rightarrow> Context \<Rightarrow> Expression list \<Rightarrow> Type \<Rightarrow> IRGenerator
     \<Rightarrow> Expression list option \<times> IRGenerator" where
  "coerceEach ext ctx [] base g = (Some [], g)"
| "coerceEach ext ctx (arg # rest) base g =
     (case coerce ext ctx (Some arg) base g of
        (None, g1) \<Rightarrow> (None, g1)
      | (Some arg', g1) \<Rightarrow>
          (case coerceEach ext ctx rest base g1 of
             (None, g2) \<Rightarrow> (None, g2)
           | (Some rest', g2) \<Rightarrow> (Some (arg' # rest'), g2)))"

text \<open>\<^verbatim>\<open>IRGenerator::convertConstructor\<close>.\<close>

definition convertConstructor ::
  "Ext \<Rightarrow> Context \<Rightarrow> int \<Rightarrow> Type \<Rightarrow> Expression list \<Rightarrow> IRGenerator
     \<Rightarrow> Expression option \<times> IRGenerator" where
  "convertConstructor ext ctx offset type args g =
     (if length args = 1 \<and> type_eq (type_of (hd args)) type \<and>
         \<not> type_eq (nonnullable type) (fFragmentProcessor_Type ctx) then
        (Some (hd args), g)
      else if isNumber type then convertNumberConstructor ext ctx offset type args g
      else if typeKind type = kArray then
        (case fComponentType type of
           None \<Rightarrow> (None, g)
         | Some base \<Rightarrow>
             (case coerceEach ext ctx args base g of
                (None, g1) \<Rightarrow> (None, g1)
              | (Some args', g1) \<Rightarrow> (Some (Constructor offset type args'), g1)))
      else if typeKind type = kVector \<or> typeKind type = kMatrix then
        convertCompoundConstructor ext ctx offset type args g
      else (None, report g offset (''cannot construct '' @ q @ displayName ctx type @ q)))"

text \<open>
  \<^verbatim>\<open>IRGenerator::callCost\<close>. The loop adds the coercion cost of each argument to the
  type chosen for it; \<^verbatim>\<open>determineFinalTypes\<close> gives one type for each argument (a
  missing one would be an out-of-range read and counts as no match). The total is a C
  \<^verbatim>\<open>int\<close>: \<open>int32\<close> is the value that \<^verbatim>\<open>total += cost\<close> leaves in a 32-bit
  two's complement \<^verbatim>\<open>int\<close>, the sum itself as long as it does not overflow.
\<close>

definition int32 :: "int \<Rightarrow> int" where
  "int32 n = sint (word_of_int n :: 32 word)"

fun callCostLoop :: "Ext \<Rightarrow> Expression list \<Rightarrow> Type list \<Rightarrow> int \<Rightarrow> int" where
  "callCostLoop ext [] types totalCost = totalCost"
| "callCostLoop ext (arg # rest) [] totalCost = INT_MAX"
| "callCostLoop ext (arg # rest) (t # types) totalCost =
     (let cost = exprCoercionCost ext arg t in
      if cost \<noteq> INT_MAX then callCostLoop ext rest types (int32 (totalCost + cost))
      else INT_MAX)"

definition callCost :: "Ext \<Rightarrow> FunctionDeclaration \<Rightarrow> Expression list \<Rightarrow> int" where
  "callCost ext function arguments =
     (if length (fParameters function) \<noteq> length arguments then INT_MAX
      else
        (case determineFinalTypes ext function arguments of
           None \<Rightarrow> INT_MAX
         | Some (types, ignored) \<Rightarrow> callCostLoop ext arguments types 0))"

text \<open>The message \<^verbatim>\<open>no match for f(T1, T2)\<close>.\<close>

fun joinNames :: "string list \<Rightarrow> string" where
  "joinNames [] = []"
| "joinNames [n] = n"
| "joinNames (n # ns) = n @ '', '' @ joinNames ns"

definition noMatch :: "Context \<Rightarrow> string \<Rightarrow> Expression list \<Rightarrow> string" where
  "noMatch ctx name arguments =
     ''no match for '' @ name @ ''('' @
     joinNames (map (\<lambda>a. displayName ctx (type_of a)) arguments) @ '')''"

text \<open>
  The loop of \<^verbatim>\<open>call\<close> (a function declaration) over the arguments: each is coerced
  to its final type, and an argument for an \<^verbatim>\<open>out\<close> parameter is marked as written.
\<close>

fun coerceArguments ::
  "Ext \<Rightarrow> Context \<Rightarrow> Expression list \<Rightarrow> Type list \<Rightarrow> Parameter list \<Rightarrow> IRGenerator
     \<Rightarrow> Expression list option \<times> IRGenerator" where
  "coerceArguments ext ctx [] types params g = (Some [], g)"
| "coerceArguments ext ctx (arg # rest) (t # types) (p # params) g =
     (case coerce ext ctx (Some arg) t g of
        (None, g1) \<Rightarrow> (None, g1)
      | (Some arg1, g1) \<Rightarrow>
          (case (if kOut_Flag \<in> fFlags (param_fModifiers p) then
                   (case setRefKind arg1
                           (if kIn_Flag \<in> fFlags (param_fModifiers p) then kReadWrite_RefKind
                            else kPointer_RefKind) g1 of
                      (ok, arg2, g2) \<Rightarrow> (arg2, g2))
                 else (arg1, g1)) of
             (arg2, g2) \<Rightarrow>
               (case coerceArguments ext ctx rest types params g2 of
                  (None, g3) \<Rightarrow> (None, g3)
                | (Some rest', g3) \<Rightarrow> (Some (arg2 # rest'), g3))))"
| "coerceArguments ext ctx (arg # rest) types params g = (None, g)"

text \<open>\<^verbatim>\<open>IRGenerator::call\<close> of a function declaration.\<close>

definition call_function ::
  "Ext \<Rightarrow> Context \<Rightarrow> int \<Rightarrow> FunctionDeclaration \<Rightarrow> Expression list \<Rightarrow> IRGenerator
     \<Rightarrow> Expression option \<times> IRGenerator" where
  "call_function ext ctx offset function arguments g =
     (let g0 = (if fn_fBuiltin function then
                  (let ga = (if fn_hasDefinition function then
                               g \<lparr> fReferencedIntrinsics :=
                                     List.insert function (fReferencedIntrinsics g) \<rparr>
                             else g)
                   in if \<not> fIsBuiltinCode ga then copyIntrinsicIfNeeded ext function ga else ga)
                else g)
      in
      if length (fParameters function) \<noteq> length arguments then
        (None, report g0 offset
           (''call to '' @ q @ fn_fName function @ q @ '' expected '' @
            to_string (int (length (fParameters function))) @ '' argument'' @
            (if length (fParameters function) \<noteq> 1 then ''s'' else []) @
            '', but found '' @ to_string (int (length arguments))))
      else if fKind g0 = kPipelineStage_Kind \<and> \<not> fn_hasDefinition function \<and>
              \<not> fn_fBuiltin function then
        (None, report g0 offset (''call to undefined function '' @ q @ fn_fName function @ q))
      else
        (case determineFinalTypes ext function arguments of
           None \<Rightarrow> (None, report g0 offset (noMatch ctx (fn_fName function) arguments))
         | Some (types, returnType) \<Rightarrow>
             (case coerceArguments ext ctx arguments types (fParameters function) g0 of
                (None, g1) \<Rightarrow> (None, g1)
              | (Some arguments', g1) \<Rightarrow>
                  (let funcCall = FunctionCall offset returnType function arguments' in
                   if fCanInline g1 \<and>
                      isSafeToInline ext funcCall (fInlineThreshold (fSettings g1)) then
                     (case inlineCall ext funcCall (fSymbolTable g1) of
                        (fInlinedBody, fReplacementExpr, table) \<Rightarrow>
                          (fReplacementExpr,
                           (case fInlinedBody of
                              Some body \<Rightarrow>
                                g1 \<lparr> fSymbolTable := table,
                                     fExtraStatements := fExtraStatements g1 @ [body] \<rparr>
                            | None \<Rightarrow> g1 \<lparr> fSymbolTable := table \<rparr>)))
                   else (Some funcCall, g1)))))"

text \<open>
  The overload loop of \<^verbatim>\<open>call\<close>: \<open>bestCost\<close> and \<open>best\<close> are the loop variables,
  \<open>None\<close> the null pointer.
\<close>

fun bestOverload ::
  "(FunctionDeclaration \<Rightarrow> int) \<Rightarrow> FunctionDeclaration list \<Rightarrow> int
     \<Rightarrow> FunctionDeclaration option \<Rightarrow> FunctionDeclaration option" where
  "bestOverload cost [] bestCost best = best"
| "bestOverload cost (f # fs) bestCost best =
     (if cost f < bestCost then bestOverload cost fs (cost f) (Some f)
      else bestOverload cost fs bestCost best)"

text \<open>Coercing each argument of an external function to its parameter type.\<close>

fun coerceTo ::
  "Ext \<Rightarrow> Context \<Rightarrow> Expression list \<Rightarrow> Type list \<Rightarrow> IRGenerator
     \<Rightarrow> Expression list option \<times> IRGenerator" where
  "coerceTo ext ctx [] types g = (Some [], g)"
| "coerceTo ext ctx (arg # rest) (t # types) g =
     (case coerce ext ctx (Some arg) t g of
        (None, g1) \<Rightarrow> (None, g1)
      | (Some arg', g1) \<Rightarrow>
          (case coerceTo ext ctx rest types g1 of
             (None, g2) \<Rightarrow> (None, g2)
           | (Some rest', g2) \<Rightarrow> (Some (arg' # rest'), g2)))"
| "coerceTo ext ctx (arg # rest) [] g = (None, g)"

text \<open>
  \<^verbatim>\<open>IRGenerator::call\<close> of a function value. A function reference names at least one
  declaration.
\<close>

definition call ::
  "Ext \<Rightarrow> Context \<Rightarrow> int \<Rightarrow> Expression \<Rightarrow> Expression list \<Rightarrow> IRGenerator
     \<Rightarrow> Expression option \<times> IRGenerator" where
  "call ext ctx offset functionValue arguments g =
     (case functionValue of
        TypeReference _ t _ \<Rightarrow> convertConstructor ext ctx offset t arguments g
      | ExternalValueReference _ v _ \<Rightarrow>
          if \<not> canCall v then (None, report g offset ''this external value is not a function'')
          else if length (callParameterTypes v) \<noteq> length arguments then
            (None, report g offset
               (''external function expected '' @
                to_string (int (length (callParameterTypes v))) @
                '' arguments, but found '' @ to_string (int (length arguments))))
          else
            (case coerceTo ext ctx arguments (callParameterTypes v) g of
               (None, g1) \<Rightarrow> (None, g1)
             | (Some arguments', g1) \<Rightarrow>
                 (Some (ExternalFunctionCall offset (callReturnType v) v arguments'), g1))
      | FunctionReference _ fFunctions _ \<Rightarrow>
          if length fFunctions > 1 then
            (case bestOverload (\<lambda>f. callCost ext f arguments) fFunctions INT_MAX None of
               Some best \<Rightarrow> call_function ext ctx offset best arguments g
             | None \<Rightarrow>
                 (None, report g offset (noMatch ctx (fn_fName (hd fFunctions)) arguments)))
          else
            (case fFunctions of
               f # _ \<Rightarrow> call_function ext ctx offset f arguments g
             | [] \<Rightarrow> (None, g))
      | _ \<Rightarrow> (None, report g offset ''not a function''))"

subsection \<open>Calls: properties\<close>

lemma bestOverload_result:
  "bestOverload cost fs bestCost best = r \<Longrightarrow>
     (r = best \<and> (\<forall>f \<in> set fs. bestCost \<le> cost f)) \<or>
     (\<exists>i < length fs. r = Some (fs ! i) \<and> cost (fs ! i) < bestCost \<and>
        (\<forall>f \<in> set fs. cost (fs ! i) \<le> cost f) \<and>
        (\<forall>j < i. cost (fs ! i) < cost (fs ! j)))"
proof (induction fs arbitrary: bestCost best)
  case Nil
  then show ?case by simp
next
  case (Cons f fs)
  show ?case
  proof (cases "cost f < bestCost")
    case True
    with Cons.prems have "bestOverload cost fs (cost f) (Some f) = r" by simp
    from Cons.IH [OF this] show ?thesis
    proof
      assume a: "r = Some f \<and> (\<forall>g \<in> set fs. cost f \<le> cost g)"
      have "0 < length (f # fs) \<and> r = Some ((f # fs) ! 0) \<and> cost ((f # fs) ! 0) < bestCost \<and>
          (\<forall>g \<in> set (f # fs). cost ((f # fs) ! 0) \<le> cost g) \<and>
          (\<forall>j < 0. cost ((f # fs) ! 0) < cost ((f # fs) ! j))"
        using a True by simp
      then show ?thesis by blast
    next
      assume "\<exists>i < length fs. r = Some (fs ! i) \<and> cost (fs ! i) < cost f \<and>
          (\<forall>g \<in> set fs. cost (fs ! i) \<le> cost g) \<and> (\<forall>j < i. cost (fs ! i) < cost (fs ! j))"
      then obtain i where i: "i < length fs" "r = Some (fs ! i)" "cost (fs ! i) < cost f"
          "\<forall>g \<in> set fs. cost (fs ! i) \<le> cost g" "\<forall>j < i. cost (fs ! i) < cost (fs ! j)"
        by blast
      have "\<forall>j < Suc i. cost ((f # fs) ! Suc i) < cost ((f # fs) ! j)"
      proof (intro allI impI)
        fix j assume "j < Suc i"
        then show "cost ((f # fs) ! Suc i) < cost ((f # fs) ! j)"
          using i(3,5) by (cases j) simp_all
      qed
      then have "Suc i < length (f # fs) \<and> r = Some ((f # fs) ! Suc i) \<and>
          cost ((f # fs) ! Suc i) < bestCost \<and>
          (\<forall>g \<in> set (f # fs). cost ((f # fs) ! Suc i) \<le> cost g) \<and>
          (\<forall>j < Suc i. cost ((f # fs) ! Suc i) < cost ((f # fs) ! j))"
        using i True by auto
      then show ?thesis by blast
    qed
  next
    case False
    with Cons.prems have "bestOverload cost fs bestCost best = r" by simp
    from Cons.IH [OF this] show ?thesis
    proof
      assume "r = best \<and> (\<forall>g \<in> set fs. bestCost \<le> cost g)"
      then show ?thesis using False by simp
    next
      assume "\<exists>i < length fs. r = Some (fs ! i) \<and> cost (fs ! i) < bestCost \<and>
          (\<forall>g \<in> set fs. cost (fs ! i) \<le> cost g) \<and> (\<forall>j < i. cost (fs ! i) < cost (fs ! j))"
      then obtain i where i: "i < length fs" "r = Some (fs ! i)" "cost (fs ! i) < bestCost"
          "\<forall>g \<in> set fs. cost (fs ! i) \<le> cost g" "\<forall>j < i. cost (fs ! i) < cost (fs ! j)"
        by blast
      have "\<forall>j < Suc i. cost ((f # fs) ! Suc i) < cost ((f # fs) ! j)"
      proof (intro allI impI)
        fix j assume "j < Suc i"
        then show "cost ((f # fs) ! Suc i) < cost ((f # fs) ! j)"
          using i(3,5) False by (cases j) simp_all
      qed
      then have "Suc i < length (f # fs) \<and> r = Some ((f # fs) ! Suc i) \<and>
          cost ((f # fs) ! Suc i) < bestCost \<and>
          (\<forall>g \<in> set (f # fs). cost ((f # fs) ! Suc i) \<le> cost g) \<and>
          (\<forall>j < Suc i. cost ((f # fs) ! Suc i) < cost ((f # fs) ! j))"
        using i False by auto
      then show ?thesis by blast
    qed
  qed
qed

lemma int32_id: "0 \<le> n \<Longrightarrow> n \<le> INT_MAX \<Longrightarrow> int32 n = n"
  by (simp add: int32_def INT_MAX_def sint_sbintrunc' signed_take_bit_int_eq_self)


lemma callCostLoop_uncoercible:
  "length types = length arguments \<Longrightarrow>
   \<exists>(a, t) \<in> set (zip arguments types). exprCoercionCost ext a t = INT_MAX \<Longrightarrow>
   callCostLoop ext arguments types totalCost = INT_MAX"
proof (induction arguments arbitrary: types totalCost)
  case Nil
  then show ?case by simp
next
  case (Cons a arguments)
  then obtain t ts where types: "types = t # ts"
    by (cases types) auto
  with Cons.prems have l: "length ts = length arguments" by simp
  show ?case
  proof (cases "exprCoercionCost ext a t = INT_MAX")
    case True
    then show ?thesis by (simp add: types)
  next
    case False
    with Cons.prems(2) types
    have "\<exists>(a, t) \<in> set (zip arguments ts). exprCoercionCost ext a t = INT_MAX"
      by auto
    from Cons.IH [OF l this] False show ?thesis
      by (simp add: types Let_def)
  qed
qed

lemma callCostLoop_sum:
  "length types = length arguments \<Longrightarrow>
   \<forall>(a, t) \<in> set (zip arguments types). 0 \<le> exprCoercionCost ext a t \<Longrightarrow>
   0 \<le> totalCost \<Longrightarrow>
   totalCost + sum_list (map (\<lambda>(a, t). exprCoercionCost ext a t) (zip arguments types))
     \<le> INT_MAX \<Longrightarrow>
   callCostLoop ext arguments types totalCost =
     (if \<exists>(a, t) \<in> set (zip arguments types). exprCoercionCost ext a t = INT_MAX then INT_MAX
      else totalCost + sum_list (map (\<lambda>(a, t). exprCoercionCost ext a t) (zip arguments types)))"
proof (induction arguments arbitrary: types totalCost)
  case Nil
  then show ?case by simp
next
  case (Cons a arguments)
  then obtain t ts where types: "types = t # ts"
    by (cases types) auto
  with Cons.prems have l: "length ts = length arguments" by simp
  let ?c = "exprCoercionCost ext a t"
  let ?rest = "sum_list (map (\<lambda>(a, t). exprCoercionCost ext a t) (zip arguments ts))"
  have c0: "0 \<le> ?c" and rest: "\<forall>(a, t) \<in> set (zip arguments ts). 0 \<le> exprCoercionCost ext a t"
    using Cons.prems(2) types by auto
  have r0: "0 \<le> ?rest"
    using rest by (intro sum_list_nonneg) auto
  have bound: "totalCost + ?c + ?rest \<le> INT_MAX"
    using Cons.prems(4) types by simp
  have w: "int32 (totalCost + ?c) = totalCost + ?c"
    using c0 r0 bound Cons.prems(3) by (intro int32_id) auto
  have nn: "0 \<le> totalCost + ?c"
    using c0 Cons.prems(3) by simp
  from Cons.IH [OF l rest nn bound] w show ?case
    by (simp add: types Let_def)
qed

text \<open>
  Claim C8. The cost of calling a declaration is \<open>INT_MAX\<close> when the number of arguments
  differs from the number of parameters and when an argument cannot be coerced to its
  final type; otherwise it is the sum of the arguments' coercion costs, as long as that
  sum does not overflow the C \<^verbatim>\<open>int\<close> it is added up in (the costs are not negative
  and their sum is at most \<open>INT_MAX\<close>). A call through a reference to several
  declarations goes to the declaration found by the overload loop: a declaration of the
  list whose cost is below \<open>INT_MAX\<close> and minimal, and the first one of that cost
  (every earlier declaration costs strictly more), so a candidate of cost 0 shuts out
  every candidate of positive cost; when no declaration costs less than \<open>INT_MAX\<close>
  the call reports "no match" and yields no expression.
\<close>

theorem call_overload_minimum_cost:
  assumes "length fs > 1"
  shows "(\<forall>f. length (fParameters f) \<noteq> length arguments \<longrightarrow>
            callCost ext f arguments = INT_MAX) \<and>
         (\<forall>f types ret. length (fParameters f) = length arguments \<and>
            determineFinalTypes ext f arguments = Some (types, ret) \<and>
            length types = length arguments \<and>
            (\<exists>(a, t) \<in> set (zip arguments types). exprCoercionCost ext a t = INT_MAX) \<longrightarrow>
            callCost ext f arguments = INT_MAX) \<and>
         (\<forall>f types ret. length (fParameters f) = length arguments \<and>
            determineFinalTypes ext f arguments = Some (types, ret) \<and>
            length types = length arguments \<and>
            (\<forall>(a, t) \<in> set (zip arguments types). 0 \<le> exprCoercionCost ext a t) \<and>
            sum_list (map (\<lambda>(a, t). exprCoercionCost ext a t) (zip arguments types))
              \<le> INT_MAX \<longrightarrow>
            callCost ext f arguments =
              sum_list (map (\<lambda>(a, t). exprCoercionCost ext a t) (zip arguments types))) \<and>
         (case bestOverload (\<lambda>f. callCost ext f arguments) fs INT_MAX None of
            Some best \<Rightarrow>
              call ext ctx offset (FunctionReference off fs t) arguments g =
                call_function ext ctx offset best arguments g \<and>
              callCost ext best arguments < INT_MAX \<and>
              (\<forall>f \<in> set fs. callCost ext best arguments \<le> callCost ext f arguments) \<and>
              (\<exists>i < length fs. fs ! i = best \<and>
                 (\<forall>j < i. callCost ext best arguments < callCost ext (fs ! j) arguments)) \<and>
              ((\<exists>f \<in> set fs. callCost ext f arguments = 0) \<longrightarrow>
                 (\<forall>f \<in> set fs. 0 < callCost ext f arguments \<longrightarrow> f \<noteq> best))
          | None \<Rightarrow>
              call ext ctx offset (FunctionReference off fs t) arguments g =
                (None, report g offset (noMatch ctx (fn_fName (hd fs)) arguments)) \<and>
              (\<forall>f \<in> set fs. INT_MAX \<le> callCost ext f arguments))"
proof -
  have arity: "\<forall>f. length (fParameters f) \<noteq> length arguments \<longrightarrow>
      callCost ext f arguments = INT_MAX"
    by (simp add: callCost_def)
  have illegal: "\<forall>f types ret. length (fParameters f) = length arguments \<and>
      determineFinalTypes ext f arguments = Some (types, ret) \<and>
      length types = length arguments \<and>
      (\<exists>(a, t) \<in> set (zip arguments types). exprCoercionCost ext a t = INT_MAX) \<longrightarrow>
      callCost ext f arguments = INT_MAX"
    by (simp add: callCost_def callCostLoop_uncoercible)
  have total: "\<forall>f types ret. length (fParameters f) = length arguments \<and>
      determineFinalTypes ext f arguments = Some (types, ret) \<and>
      length types = length arguments \<and>
      (\<forall>(a, t) \<in> set (zip arguments types). 0 \<le> exprCoercionCost ext a t) \<and>
      sum_list (map (\<lambda>(a, t). exprCoercionCost ext a t) (zip arguments types))
        \<le> INT_MAX \<longrightarrow>
      callCost ext f arguments =
        sum_list (map (\<lambda>(a, t). exprCoercionCost ext a t) (zip arguments types))"
  proof (intro allI impI)
    fix f types ret
    assume h: "length (fParameters f) = length arguments \<and>
      determineFinalTypes ext f arguments = Some (types, ret) \<and>
      length types = length arguments \<and>
      (\<forall>(a, t) \<in> set (zip arguments types). 0 \<le> exprCoercionCost ext a t) \<and>
      sum_list (map (\<lambda>(a, t). exprCoercionCost ext a t) (zip arguments types))
        \<le> INT_MAX"
    let ?s = "sum_list (map (\<lambda>(a, t). exprCoercionCost ext a t) (zip arguments types))"
    have s: "callCostLoop ext arguments types 0 =
        (if \<exists>(a, t) \<in> set (zip arguments types). exprCoercionCost ext a t = INT_MAX
         then INT_MAX else 0 + ?s)"
      using h by (intro callCostLoop_sum) auto
    have "(\<exists>(a, t) \<in> set (zip arguments types). exprCoercionCost ext a t = INT_MAX) \<Longrightarrow>
        ?s = INT_MAX"
    proof -
      assume "\<exists>(a, t) \<in> set (zip arguments types). exprCoercionCost ext a t = INT_MAX"
      then obtain a t where m: "(a, t) \<in> set (zip arguments types)"
          "exprCoercionCost ext a t = INT_MAX"
        by auto
      have nn: "\<And>x. x \<in> set (map (\<lambda>(a, t). exprCoercionCost ext a t) (zip arguments types)) \<Longrightarrow>
          0 \<le> x"
        using h by auto
      have "(\<lambda>(a, t). exprCoercionCost ext a t) (a, t) \<le> ?s"
        using m(1) nn by (intro member_le_sum_list) auto
      with m(2) h show ?thesis by simp
    qed
    with s h show "callCost ext f arguments = ?s"
      by (auto simp: callCost_def)
  qed
  define cost where "cost = (\<lambda>f. callCost ext f arguments)"
  define r where "r = bestOverload cost fs INT_MAX None"
  have sel: "(case r of
            Some best \<Rightarrow>
              call ext ctx offset (FunctionReference off fs t) arguments g =
                call_function ext ctx offset best arguments g \<and>
              cost best < INT_MAX \<and>
              (\<forall>f \<in> set fs. cost best \<le> cost f) \<and>
              (\<exists>i < length fs. fs ! i = best \<and> (\<forall>j < i. cost best < cost (fs ! j))) \<and>
              ((\<exists>f \<in> set fs. cost f = 0) \<longrightarrow> (\<forall>f \<in> set fs. 0 < cost f \<longrightarrow> f \<noteq> best))
          | None \<Rightarrow>
              call ext ctx offset (FunctionReference off fs t) arguments g =
                (None, report g offset (noMatch ctx (fn_fName (hd fs)) arguments)) \<and>
              (\<forall>f \<in> set fs. INT_MAX \<le> cost f))"
  proof (cases r)
    case None
    then have c: "call ext ctx offset (FunctionReference off fs t) arguments g =
        (None, report g offset (noMatch ctx (fn_fName (hd fs)) arguments))"
      using assms by (simp add: call_def r_def cost_def)
    from bestOverload_result [of cost fs INT_MAX None r] None
    have "\<forall>f \<in> set fs. INT_MAX \<le> cost f"
      by (auto simp: r_def)
    with c None show ?thesis by simp
  next
    case (Some best)
    then have c: "call ext ctx offset (FunctionReference off fs t) arguments g =
        call_function ext ctx offset best arguments g"
      using assms by (simp add: call_def r_def cost_def)
    from bestOverload_result [of cost fs INT_MAX None r] Some
    obtain i where i: "i < length fs" "best = fs ! i" "cost (fs ! i) < INT_MAX"
        "\<forall>f \<in> set fs. cost (fs ! i) \<le> cost f" "\<forall>j < i. cost (fs ! i) < cost (fs ! j)"
      by (auto simp: r_def)
    have zero: "(\<exists>f \<in> set fs. cost f = 0) \<longrightarrow> (\<forall>f \<in> set fs. 0 < cost f \<longrightarrow> f \<noteq> best)"
      using i(2,4) by fastforce
    show ?thesis
      using c i zero Some by auto
  qed
  show ?thesis
    using arity illegal total sel unfolding r_def cost_def by blast
qed

subsection \<open>A sample generator\<close>

text \<open>
  Collaborators and a generator state for evaluating the definitions: integer literals
  coerce to integer types and float literals to float types at no cost, every other
  expression at the cost of its type; a declaration's final types are its parameter
  types; nothing is inlined.
\<close>

definition sampleExprCoercionCost :: "Expression \<Rightarrow> Type \<Rightarrow> int" where
  "sampleExprCoercionCost e t =
     (if kind e = kIntLiteral \<and> isInteger t then 0
      else if kind e = kFloatLiteral \<and> isFloat t then 0
      else sampleCoercionCost (type_of e) t)"

definition sampleOperatorName :: "Token_Kind \<Rightarrow> string" where
  "sampleOperatorName op =
     (if op = TK_PLUS then ''+'' else if op = TK_MINUS then ''-'' else if op = TK_STAR then ''*''
      else if op = TK_SLASH then ''/'' else if op = TK_EQ then ''='' else ''?'')"

definition sampleExt :: Ext where
  "sampleExt = \<lparr> floatArith = sampleFloatArith, foldCompound = noCompoundFold,
     exprCoercionCost = sampleExprCoercionCost,
     determineFinalTypes = (\<lambda>f args. Some (map param_fType (fParameters f), fReturnType f)),
     isSafeToInline = (\<lambda>e threshold. False),
     inlineCall = (\<lambda>e table. (None, Some e, table)),
     copyIntrinsicIfNeeded = (\<lambda>f g. g),
     SK_WIDTH_BUILTIN = 10011, SK_HEIGHT_BUILTIN = 10012, SK_FRAGCOORD_BUILTIN = 15,
     RTADJUST_NAME = ''sk_RTAdjust'', OperatorName = sampleOperatorName,
     getCap = (\<lambda>offset name g. (None, g)), getChild = (\<lambda>v name. None),
     convertTypeField = (\<lambda>offset t name g. (None, g)),
     getNormalizeSkPositionCode = (\<lambda>g. Nop), SK_DEBUG = False,
     nested_call = (\<lambda>offset ctor args g. (None, g)) \<rparr>"

definition noModifiers :: Modifiers where
  "noModifiers = \<lparr> fLayout = \<lparr> layout_fFlags = {}, fLocation = - 1, fIndex = - 1,
       fBuiltin = - 1, fKey = False, fWhen = [], fMarker = [], fCTypeIsDefault = True \<rparr>,
     fFlags = {} \<rparr>"

definition builtinScope :: Scope where
  "builtinScope = [(''bool'', TypeSymbol boolType), (''int'', TypeSymbol intType),
     (''uint'', TypeSymbol uintType), (''short'', TypeSymbol shortType),
     (''half'', TypeSymbol halfType), (''float'', TypeSymbol floatType),
     (''void'', TypeSymbol voidType)]"

definition sampleGenerator :: IRGenerator where
  "sampleGenerator = \<lparr> fKind = kFragment_Kind,
     fSettings = \<lparr> settings_fFlipY = False, hasCaps = False,
       hasFragCoordConventionsExtension = False, gsInvocationsSupport = False,
       fInlineThreshold = 50 \<rparr>,
     fIsBuiltinCode = False, fSymbolTable = [[], builtinScope],
     fLoopLevel = 0, fSwitchLevel = 0, fErrors = [], fExtraStatements = [],
     fTmpSwizzleCounter = 0, fCanInline = True,
     fInputs = \<lparr> fRTWidth = False, fRTHeight = False, inputs_fFlipY = False \<rparr>,
     fRTAdjust = None, fCurrentFunction = None, fReferencedIntrinsics = [],
     fFileSections = [] \<rparr>"

definition sampleFunction :: "string \<Rightarrow> Type list \<Rightarrow> Type \<Rightarrow> FunctionDeclaration" where
  "sampleFunction n types ret = \<lparr> fn_fName = n,
     fParameters = map (\<lambda>t. \<lparr> param_fModifiers = noModifiers, param_fName = ''x'',
                              param_fType = t \<rparr>) types,
     fReturnType = ret, fn_fBuiltin = False, fn_hasDefinition = True \<rparr>"

theorem coerce_same_type_identity_witness:
  "type_eq (type_of (IntLiteral 3 5 intType)) intType \<and>
   coerce sampleExt sampleContext (Some (IntLiteral 3 5 intType)) intType sampleGenerator =
     (Some (IntLiteral 3 5 intType), sampleGenerator)"
proof -
  have h: "type_eq (type_of (IntLiteral 3 5 intType)) intType"
    by (simp add: type_eq_def)
  show ?thesis
    using h coerce_same_type_identity [OF h, of sampleExt sampleContext sampleGenerator]
    by simp
qed

lemma sample_callCost:
  "callCost sampleExt (sampleFunction ''f'' [floatType] floatType) [IntLiteral 2 5 intType] = 2"
  "callCost sampleExt (sampleFunction ''f'' [intType] intType) [IntLiteral 2 5 intType] = 0"
  by (simp_all add: callCost_def sampleExt_def sampleFunction_def sampleExprCoercionCost_def
      isInteger_def isSigned_def isUnsigned_def isFloat_def intType_def floatType_def
      scalarType_def INT_MAX_def int32_def)

theorem call_overload_minimum_cost_witness:
  "length [sampleFunction ''f'' [floatType] floatType, sampleFunction ''f'' [intType] intType] > 1
   \<and> callCost sampleExt (sampleFunction ''f'' [floatType] floatType) [IntLiteral 2 5 intType] =
       sum_list [exprCoercionCost sampleExt (IntLiteral 2 5 intType) floatType]
   \<and> exprCoercionCost sampleExt (IntLiteral 2 5 intType) floatType = 2
   \<and> call sampleExt sampleContext 0
       (FunctionReference 0
          [sampleFunction ''f'' [floatType] floatType, sampleFunction ''f'' [intType] intType]
          invalidType)
       [IntLiteral 2 5 intType] sampleGenerator =
     call_function sampleExt sampleContext 0 (sampleFunction ''f'' [intType] intType)
       [IntLiteral 2 5 intType] sampleGenerator"
proof -
  let ?fs = "[sampleFunction ''f'' [floatType] floatType, sampleFunction ''f'' [intType] intType]"
  let ?args = "[IntLiteral 2 5 intType]"
  have h: "length ?fs > 1"
    by simp
  have b: "bestOverload (\<lambda>f. callCost sampleExt f ?args) ?fs INT_MAX None =
      Some (sampleFunction ''f'' [intType] intType)"
    by (simp add: sample_callCost) (simp add: INT_MAX_def)
  have c: "exprCoercionCost sampleExt (IntLiteral 2 5 intType) floatType = 2"
    by (simp add: sampleExt_def sampleExprCoercionCost_def isInteger_def isSigned_def
        isUnsigned_def isFloat_def intType_def floatType_def scalarType_def)
  have d: "length (fParameters (sampleFunction ''f'' [floatType] floatType)) = length ?args"
      "determineFinalTypes sampleExt (sampleFunction ''f'' [floatType] floatType) ?args =
         Some ([floatType], floatType)"
    by (simp_all add: sampleFunction_def sampleExt_def)
  note t = call_overload_minimum_cost [OF h, of ?args sampleExt sampleContext 0 0 invalidType
      sampleGenerator]
  have "callCost sampleExt (sampleFunction ''f'' [floatType] floatType) ?args =
      sum_list [exprCoercionCost sampleExt (IntLiteral 2 5 intType) floatType]"
    using t [THEN conjunct2, THEN conjunct2, THEN conjunct1, rule_format,
        of "sampleFunction ''f'' [floatType] floatType" "[floatType]" floatType] c d
    by (simp add: INT_MAX_def)
  moreover from t b have "call sampleExt sampleContext 0 (FunctionReference 0 ?fs invalidType)
      ?args sampleGenerator =
      call_function sampleExt sampleContext 0 (sampleFunction ''f'' [intType] intType) ?args
        sampleGenerator"
    by simp
  ultimately show ?thesis
    using h c by simp
qed


subsection \<open>Swizzles\<close>

text \<open>
  Modelled from the spec: the macros \<^verbatim>\<open>SKSL_SWIZZLE_0\<close> and \<^verbatim>\<open>SKSL_SWIZZLE_1\<close> are
  defined in a header outside this file. The spec calls them the literal \<open>0\<close>/\<open>1\<close>
  pseudo-components of a mask; the code tells them from the real components 0 to 3 by
  their sign (\<^verbatim>\<open>idx < 0\<close> in \<^verbatim>\<open>checkSwizzleWrite\<close>).
\<close>

definition SKSL_SWIZZLE_0 :: int where "SKSL_SWIZZLE_0 = - 2"
definition SKSL_SWIZZLE_1 :: int where "SKSL_SWIZZLE_1 = - 1"

text \<open>\<^verbatim>\<open>Modifiers()\<close>: no flag, and a layout whose numbers are all -1.\<close>

definition defaultModifiers :: Modifiers where
  "defaultModifiers = \<lparr> fLayout = \<lparr> layout_fFlags = {}, fLocation = - 1, fIndex = - 1,
       fBuiltin = - 1, fKey = False, fWhen = [], fMarker = [], fCTypeIsDefault = True \<rparr>,
     fFlags = {} \<rparr>"

text \<open>
  The type of a swizzle of \<open>count\<close> components (the helper of the node's constructor):
  the component type of the base for one component, the vector of that many components
  otherwise; \<open>None\<close> where the base type has no component.
\<close>

definition get_type :: "Context \<Rightarrow> Type \<Rightarrow> nat \<Rightarrow> Type option" where
  "get_type ctx baseType count =
     (case fComponentType baseType of
        None \<Rightarrow> None
      | Some c \<Rightarrow> Some (if count = 1 then c else toCompound ctx c (int count) 1))"

text \<open>
  One step of the \<^verbatim>\<open>switch\<close> over a character of the mask, with its fall-through
  from \<open>y\<close> to \<open>z\<close> to \<open>w\<close> to the error: the component to push, or \<open>None\<close> for
  "invalid swizzle component".
\<close>

definition swizzleComponent :: "int \<Rightarrow> char \<Rightarrow> int option" where
  "swizzleComponent cols c =
     (if c = CHR ''0'' then Some SKSL_SWIZZLE_0
      else if c = CHR ''1'' then Some SKSL_SWIZZLE_1
      else if c \<in> {CHR ''x'', CHR ''r'', CHR ''s'', CHR ''L''} then Some 0
      else if c \<in> {CHR ''y'', CHR ''g'', CHR ''t'', CHR ''T''} \<and> cols \<ge> 2 then Some 1
      else if c \<in> {CHR ''y'', CHR ''g'', CHR ''t'', CHR ''T'',
                    CHR ''z'', CHR ''b'', CHR ''p'', CHR ''R''} \<and> cols \<ge> 3 then Some 2
      else if c \<in> {CHR ''y'', CHR ''g'', CHR ''t'', CHR ''T'',
                    CHR ''z'', CHR ''b'', CHR ''p'', CHR ''R'',
                    CHR ''w'', CHR ''a'', CHR ''q'', CHR ''B''} \<and> cols \<ge> 4 then Some 3
      else None)"

text \<open>
  The loop over the mask, with \<^verbatim>\<open>swizzleComponents\<close> and \<^verbatim>\<open>numLiteralFields\<close> as
  loop state: the first invalid character, or the final state.
\<close>

fun swizzleLoop :: "int \<Rightarrow> string \<Rightarrow> int list \<Rightarrow> nat \<Rightarrow> char + int list \<times> nat" where
  "swizzleLoop cols [] swizzleComponents numLiteralFields =
     Inr (swizzleComponents, numLiteralFields)"
| "swizzleLoop cols (c # cs) swizzleComponents numLiteralFields =
     (case swizzleComponent cols c of
        None \<Rightarrow> Inl c
      | Some k \<Rightarrow>
          swizzleLoop cols cs (swizzleComponents @ [k])
            (if c = CHR ''0'' \<or> c = CHR ''1'' then numLiteralFields + 1 else numLiteralFields))"

text \<open>\<^verbatim>\<open>count_contiguous_swizzle_chunks\<close>: the runs of component 0.\<close>

function count_contiguous_swizzle_chunks :: "int list \<Rightarrow> int" where
  "count_contiguous_swizzle_chunks [] = 0"
| "count_contiguous_swizzle_chunks (c # cs) =
     (if c = 0 then 1 + count_contiguous_swizzle_chunks (dropWhile (\<lambda>x. x = 0) cs)
      else count_contiguous_swizzle_chunks cs)"
  by pat_completeness auto
termination
  by (relation "measure length") (auto simp: less_Suc_eq_le length_dropWhile_le)

text \<open>
  The loop that builds the constructor arguments for a swizzled scalar: a run of
  \<open>count\<close> components 0 becomes one copy of the scalar, inside a vector constructor
  when \<open>count > 1\<close>; the literal components become integer literals.
\<close>

function scalarSwizzleArgs :: "Context \<Rightarrow> int \<Rightarrow> Expression \<Rightarrow> int list \<Rightarrow> Expression list" where
  "scalarSwizzleArgs ctx offset expr [] = []"
| "scalarSwizzleArgs ctx offset expr (c # cs) =
     (if c = 0 then
        (let count = 1 + int (length (takeWhile (\<lambda>x. x = 0) cs)) in
         (if count > 1
          then Constructor offset (toCompound ctx (type_of expr) count 1) [expr]
          else expr) # scalarSwizzleArgs ctx offset expr (dropWhile (\<lambda>x. x = 0) cs))
      else if c = SKSL_SWIZZLE_0 then
        mk_IntLiteral ctx offset 0 # scalarSwizzleArgs ctx offset expr cs
      else if c = SKSL_SWIZZLE_1 then
        mk_IntLiteral ctx offset 1 # scalarSwizzleArgs ctx offset expr cs
      else scalarSwizzleArgs ctx offset expr cs)"
  by pat_completeness auto
termination
  by (relation "measure (\<lambda>(ctx, offset, expr, cs). length cs)")
     (auto simp: less_Suc_eq_le length_dropWhile_le)

text \<open>
  \<^verbatim>\<open>IRGenerator::convertSwizzle\<close> of the mask (\<^verbatim>\<open>fields\<close>) on the converted base.
  After the loop the source asserts that the mask was not empty: on an empty mask a
  debug build aborts there, which yields no expression and no message, and a release
  build goes on to the two tests that follow.
\<close>

definition convertSwizzle ::
  "Ext \<Rightarrow> Context \<Rightarrow> Expression \<Rightarrow> string \<Rightarrow> IRGenerator \<Rightarrow> Expression option \<times> IRGenerator" where
  "convertSwizzle ext ctx base fieldMask g =
     (let baseType = type_of base in
      if typeKind baseType \<noteq> kVector \<and> \<not> isNumber baseType then
        (None, report g (fOffset base)
           (''cannot swizzle value of type '' @ q @ displayName ctx baseType @ q))
      else
        (case swizzleLoop (columns baseType) fieldMask [] 0 of
           Inl c \<Rightarrow>
             (None, report g (fOffset base) (''invalid swizzle component '' @ q @ [c] @ q))
         | Inr (swizzleComponents, numLiteralFields) \<Rightarrow>
             if SK_DEBUG ext \<and> \<not> length swizzleComponents > 0 then (None, g)
             else if length swizzleComponents > 4 then
               (None, report g (fOffset base)
                  (''too many components in swizzle mask '' @ q @ fieldMask @ q))
             else if numLiteralFields = length swizzleComponents then
               (None, report g (fOffset base) ''swizzle must refer to base expression'')
             else if isNumber baseType then
               (let offset = fOffset base;
                    reuse = (kind base = kVariableReference \<or> kind base = kFloatLiteral \<or>
                             kind base = kIntLiteral \<or>
                             count_contiguous_swizzle_chunks swizzleComponents \<le> 1);
                    var = Variable defaultModifiers
                            (''_tmpSwizzle'' @ to_string (fTmpSwizzleCounter g)) baseType
                            kLocal_Storage (Some base);
                    expr = (if reuse then base else VariableReference offset var kRead_RefKind);
                    g1 = (if reuse then g
                          else g \<lparr> fTmpSwizzleCounter := fTmpSwizzleCounter g + 1,
                                 fExtraStatements := fExtraStatements g @
                                   [VarDeclarationsStatement
                                      \<lparr> decls_fOffset = offset, fBaseType = type_of expr,
                                        fVars = [\<lparr> fVar = var, fSizes = [],
                                                  fValue = Some base \<rparr>] \<rparr>] \<rparr>)
                in (Some (Constructor offset
                            (toCompound ctx (type_of expr) (int (length swizzleComponents)) 1)
                            (scalarSwizzleArgs ctx offset expr swizzleComponents)), g1))
             else
               (case get_type ctx baseType (length swizzleComponents) of
                  None \<Rightarrow> (None, g)
                | Some t \<Rightarrow> (Some (Swizzle base swizzleComponents t), g))))"

subsection \<open>Swizzles: properties\<close>














lemma setRefKind_Swizzle_accepted:
  assumes "fst (setRefKind (Swizzle base comps t) rk g)"
  shows "fst (checkSwizzleWrite (fOffset base) comps g)"
  using assms by (auto split: prod.splits bool.splits)











subsection \<open>The syntax tree\<close>

text \<open>
  The parser's \<^verbatim>\<open>ASTNode\<close> is a tree of kind, payload and children, declared outside
  this file. The model is the tree a correct parser produces, one constructor for each
  node kind, with the source offset first. An absent child (an invalid node) is \<open>None\<close>.
\<close>

datatype ASTExpr =
    ABinary int ASTExpr Token_Kind ASTExpr
  | ABool int bool
  | ACall int ASTExpr "ASTExpr list"
  | AField int ASTExpr string
  | AFloat int double
  | AIdentifier int string
  | AIndex int ASTExpr "ASTExpr option"
  | AInt int int64
  | ANull int
  | APostfix int Token_Kind ASTExpr
  | APrefix int Token_Kind ASTExpr
  | AScope int ASTExpr string
  | ATernary int ASTExpr ASTExpr ASTExpr

fun ast_fOffset :: "ASTExpr \<Rightarrow> int" where
  "ast_fOffset (ABinary off _ _ _) = off"
| "ast_fOffset (ABool off _) = off"
| "ast_fOffset (ACall off _ _) = off"
| "ast_fOffset (AField off _ _) = off"
| "ast_fOffset (AFloat off _) = off"
| "ast_fOffset (AIdentifier off _) = off"
| "ast_fOffset (AIndex off _ _) = off"
| "ast_fOffset (AInt off _) = off"
| "ast_fOffset (ANull off) = off"
| "ast_fOffset (APostfix off _ _) = off"
| "ast_fOffset (APrefix off _ _) = off"
| "ast_fOffset (AScope off _ _) = off"
| "ast_fOffset (ATernary off _ _ _) = off"

subsection \<open>Expression conversion\<close>

text \<open>
  The scope guard \<^verbatim>\<open>AutoDisableInline\<close>: the constructor saves \<^verbatim>\<open>fCanInline\<close> and
  clears it unless \<open>canInline\<close>; the destructor, run on every way out of the guarded
  block, restores the saved value.
\<close>

definition enterDisableInline :: "bool \<Rightarrow> IRGenerator \<Rightarrow> IRGenerator" where
  "enterDisableInline canInline g = g \<lparr> fCanInline := (fCanInline g \<and> canInline) \<rparr>"

definition leaveDisableInline :: "bool \<Rightarrow> IRGenerator \<Rightarrow> IRGenerator" where
  "leaveDisableInline fOldCanInline g = g \<lparr> fCanInline := fOldCanInline \<rparr>"

text \<open>
  The part of \<^verbatim>\<open>convertBinaryExpression\<close> after the conversion of both operands. A
  failed fold still yields a binary expression.
\<close>

definition binaryExpression ::
  "Ext \<Rightarrow> Context \<Rightarrow> int \<Rightarrow> Expression \<Rightarrow> Token_Kind \<Rightarrow> Expression \<Rightarrow> IRGenerator
     \<Rightarrow> Expression option \<times> IRGenerator" where
  "binaryExpression ext ctx offset left op right g =
     (let rawLeftType = (if kind left = kIntLiteral \<and> isInteger (type_of right)
                         then type_of right else type_of left);
          rawRightType = (if kind right = kIntLiteral \<and> isInteger (type_of left)
                          then type_of left else type_of right)
      in
      case determine_binary_type ctx op rawLeftType rawRightType of
        None \<Rightarrow>
          (None, report g offset
             (''type mismatch: '' @ q @ OperatorName ext op @ q @ '' cannot operate on '' @ q @
              displayName ctx (type_of left) @ q @ '', '' @ q @
              displayName ctx (type_of right) @ q))
      | Some (leftType, rightType, resultType) \<Rightarrow>
          (case (if IsAssignment op then
                   setRefKind left
                     (if op \<noteq> TK_EQ then kReadWrite_RefKind else kWrite_RefKind) g
                 else (True, left, g)) of
             (False, left1, g1) \<Rightarrow> (None, g1)
           | (True, left1, g1) \<Rightarrow>
               (case coerce ext ctx (Some left1) leftType g1 of
                  (left2, g2) \<Rightarrow>
                    (case coerce ext ctx (Some right) rightType g2 of
                       (right2, g3) \<Rightarrow>
                         (case (left2, right2) of
                            (Some l, Some r) \<Rightarrow>
                              (case constantFold ctx (floatArith ext) (foldCompound ext)
                                      l op r (fErrors g3) of
                                 (Some result, errs) \<Rightarrow> (Some result, g3 \<lparr> fErrors := errs \<rparr>)
                               | (None, errs) \<Rightarrow>
                                   (Some (BinaryExpression offset l op r resultType),
                                    g3 \<lparr> fErrors := errs \<rparr>))
                          | _ \<Rightarrow> (None, g3))))))"

text \<open>
  The part of \<^verbatim>\<open>convertTernaryExpression\<close> after the conversion of the test and of the
  two branches. Both operand types come out of \<^verbatim>\<open>determine_binary_type\<close> as one
  pointer, so the test \<^verbatim>\<open>trueType != falseType\<close> compares a type with itself.
\<close>

definition ternaryExpression ::
  "Ext \<Rightarrow> Context \<Rightarrow> int \<Rightarrow> Expression \<Rightarrow> Expression \<Rightarrow> Expression \<Rightarrow> IRGenerator
     \<Rightarrow> Expression option \<times> IRGenerator" where
  "ternaryExpression ext ctx offset test ifTrue ifFalse g =
     (case determine_binary_type ctx TK_EQEQ (type_of ifTrue) (type_of ifFalse) of
        None \<Rightarrow>
          (None, report g offset
             (''ternary operator result mismatch: '' @ q @ displayName ctx (type_of ifTrue) @ q @
              '', '' @ q @ displayName ctx (type_of ifFalse) @ q))
      | Some (trueType, falseType, resultType) \<Rightarrow>
          if trueType \<noteq> falseType then
            (None, report g offset
               (''ternary operator result mismatch: '' @ q @ displayName ctx (type_of ifTrue) @
                q @ '', '' @ q @ displayName ctx (type_of ifFalse) @ q))
          else if type_eq (nonnullable trueType) (fFragmentProcessor_Type ctx) then
            (None, report g offset
               (''ternary expression of type '' @ q @ displayName ctx trueType @ q @
                '' not allowed''))
          else
            (case coerce ext ctx (Some ifTrue) trueType g of
               (None, g1) \<Rightarrow> (None, g1)
             | (Some ifTrue1, g1) \<Rightarrow>
                 (case coerce ext ctx (Some ifFalse) falseType g1 of
                    (None, g2) \<Rightarrow> (None, g2)
                  | (Some ifFalse1, g2) \<Rightarrow>
                      (case test of
                         BoolLiteral _ v _ \<Rightarrow> (Some (if v then ifTrue1 else ifFalse1), g2)
                       | _ \<Rightarrow> (Some (TernaryExpression offset test ifTrue1 ifFalse1), g2)))))"

text \<open>
  The part of \<^verbatim>\<open>convertPrefixExpression\<close> after the conversion of the operand. The
  verdict of \<^verbatim>\<open>setRefKind\<close> is ignored. An operator that is no prefix operator aborts
  in the source and yields no expression here.
\<close>

definition cannotOperate :: "Ext \<Rightarrow> Context \<Rightarrow> Token_Kind \<Rightarrow> Type \<Rightarrow> string" where
  "cannotOperate ext ctx op baseType =
     q @ OperatorName ext op @ q @ '' cannot operate on '' @ q @ displayName ctx baseType @ q"

definition prefixExpression ::
  "Ext \<Rightarrow> Context \<Rightarrow> int \<Rightarrow> Token_Kind \<Rightarrow> Expression \<Rightarrow> IRGenerator
     \<Rightarrow> Expression option \<times> IRGenerator" where
  "prefixExpression ext ctx offset op base g =
     (let baseType = type_of base in
      if op = TK_PLUS then
        (if \<not> isNumber baseType \<and> typeKind baseType \<noteq> kVector \<and>
            \<not> type_eq baseType (fFloatLiteral_Type ctx) then
           (None, report g offset
              (q @ ''+'' @ q @ '' cannot operate on '' @ q @ displayName ctx baseType @ q))
         else (Some base, g))
      else if op = TK_MINUS then
        (if kind base = kIntLiteral then
           (Some (mk_IntLiteral ctx (fOffset base) (- intLiteralValue base)), g)
         else if kind base = kFloatLiteral then
           (Some (mk_FloatLiteral ctx (fOffset base)
                    (d_neg (floatArith ext) (floatLiteralValue base))), g)
         else if \<not> isNumber baseType \<and> typeKind baseType \<noteq> kVector then
           (None, report g offset
              (q @ ''-'' @ q @ '' cannot operate on '' @ q @ displayName ctx baseType @ q))
         else (Some (PrefixExpression TK_MINUS base), g))
      else if op = TK_PLUSPLUS \<or> op = TK_MINUSMINUS then
        (if \<not> isNumber baseType then
           (None, report g offset (cannotOperate ext ctx op baseType))
         else
           (case setRefKind base kReadWrite_RefKind g of
              (ok, base1, g1) \<Rightarrow> (Some (PrefixExpression op base1), g1)))
      else if op = TK_LOGICALNOT then
        (if \<not> type_eq baseType (fBool_Type ctx) then
           (None, report g offset (cannotOperate ext ctx op baseType))
         else
           (case base of
              BoolLiteral off v _ \<Rightarrow> (Some (mk_BoolLiteral ctx off (\<not> v)), g)
            | _ \<Rightarrow> (Some (PrefixExpression op base), g)))
      else if op = TK_BITWISENOT then
        (if \<not> type_eq baseType (fInt_Type ctx) \<and> \<not> type_eq baseType (fUInt_Type ctx) then
           (None, report g offset (cannotOperate ext ctx op baseType))
         else (Some (PrefixExpression op base), g))
      else (None, g))"

text \<open>The part of \<^verbatim>\<open>convertPostfixExpression\<close> after the conversion of the operand.\<close>

definition postfixExpression ::
  "Ext \<Rightarrow> Context \<Rightarrow> int \<Rightarrow> Token_Kind \<Rightarrow> Expression \<Rightarrow> IRGenerator
     \<Rightarrow> Expression option \<times> IRGenerator" where
  "postfixExpression ext ctx offset op base g =
     (if \<not> isNumber (type_of base) then
        (None, report g offset (cannotOperate ext ctx op (type_of base)))
      else
        (case setRefKind base kReadWrite_RefKind g of
           (ok, base1, g1) \<Rightarrow> (Some (PostfixExpression base1 op), g1)))"

text \<open>
  \<^verbatim>\<open>IRGenerator::convertField\<close>: a child of an external value, or the field of that
  name in the base's type. The message lacks its closing apostrophe in the source too.
\<close>

fun findField :: "string \<Rightarrow> (string \<times> Type) list \<Rightarrow> int \<Rightarrow> (int \<times> Type) option" where
  "findField field [] i = None"
| "findField field ((n, t) # rest) i =
     (if n = field then Some (i, t) else findField field rest (i + 1))"

definition convertField ::
  "Ext \<Rightarrow> Context \<Rightarrow> Expression \<Rightarrow> string \<Rightarrow> IRGenerator \<Rightarrow> Expression option \<times> IRGenerator" where
  "convertField ext ctx base field g =
     (case base of
        ExternalValueReference off ev _ \<Rightarrow>
          (case getChild ext ev field of
             None \<Rightarrow>
               (None, report g (fOffset base)
                  (''external value does not have a child named '' @ q @ field @ q))
           | Some result \<Rightarrow> (Some (ExternalValueReference (fOffset base) result (ev_type result)), g))
      | _ \<Rightarrow>
          (case findField field (fFields (type_of base)) 0 of
             Some (i, t) \<Rightarrow> (Some (FieldAccess base i t), g)
           | None \<Rightarrow>
               (None, report g (fOffset base)
                  (''type '' @ q @ displayName ctx (type_of base) @ q @
                   '' does not have a field named '' @ q @ field))))"

text \<open>
  The part of \<^verbatim>\<open>convertFieldExpression\<close> after the conversion of the base.
\<close>

definition fieldExpression ::
  "Ext \<Rightarrow> Context \<Rightarrow> int \<Rightarrow> Expression \<Rightarrow> string \<Rightarrow> IRGenerator
     \<Rightarrow> Expression option \<times> IRGenerator" where
  "fieldExpression ext ctx offset base field g =
     (if type_eq (type_of base) (fSkCaps_Type ctx) then getCap ext offset field g
      else if kind base = kExternalValue then convertField ext ctx base field g
      else if typeKind (type_of base) = kOther \<or> typeKind (type_of base) = kStruct then
        convertField ext ctx base field g
      else convertSwizzle ext ctx base field g)"

text \<open>
  An array type of the given element type and size, as the generator makes one: named
  after the element type, with the size as its columns.
\<close>

text \<open>The conversion of an \<^verbatim>\<open>int64_t\<close> to \<^verbatim>\<open>int\<close>.\<close>

definition to_int :: "int64 \<Rightarrow> int" where
  "to_int v = sint (ucast v :: 32 word)"

definition arrayType :: "string \<Rightarrow> Type \<Rightarrow> int \<Rightarrow> Type" where
  "arrayType name componentType count =
     Type name kArray kNonnumeric (- 1) count 1 (Some componentType) []"

text \<open>
  The type of an index expression (the helper of the node's constructor): the column
  vector of a matrix, the component type otherwise.
\<close>

definition index_type :: "Context \<Rightarrow> Type \<Rightarrow> Type option" where
  "index_type ctx t =
     (case fComponentType t of
        None \<Rightarrow> None
      | Some c \<Rightarrow> Some (if typeKind t = kMatrix then toCompound ctx c (rows t) 1 else c))"

text \<open>
  \<^verbatim>\<open>convertExpression\<close> and the conversions that recurse through it:
  \<^verbatim>\<open>convertBinaryExpression\<close>, \<^verbatim>\<open>convertCallExpression\<close>, \<^verbatim>\<open>convertFieldExpression\<close>,
  \<^verbatim>\<open>convertIndexExpression\<close> with \<^verbatim>\<open>convertIndex\<close>, \<^verbatim>\<open>convertPostfixExpression\<close>,
  \<^verbatim>\<open>convertPrefixExpression\<close>, \<^verbatim>\<open>convertScopeExpression\<close> and
  \<^verbatim>\<open>convertTernaryExpression\<close>, one equation each; \<open>convertArguments\<close> is the loop of
  \<^verbatim>\<open>convertCallExpression\<close> over the arguments.
\<close>

fun convertExpression ::
    "Ext \<Rightarrow> Context \<Rightarrow> ASTExpr \<Rightarrow> IRGenerator \<Rightarrow> Expression option \<times> IRGenerator"
  and convertArguments ::
    "Ext \<Rightarrow> Context \<Rightarrow> ASTExpr list \<Rightarrow> IRGenerator \<Rightarrow> Expression list option \<times> IRGenerator"
where
  "convertExpression ext ctx (ABinary offset l op r) g =
     (case convertExpression ext ctx l g of
        (None, g1) \<Rightarrow> (None, g1)
      | (Some left, g1) \<Rightarrow>
          (case convertExpression ext ctx r
                  (enterDisableInline (op \<noteq> TK_LOGICALAND \<and> op \<noteq> TK_LOGICALOR) g1) of
             (right_opt, g2) \<Rightarrow>
               (case right_opt of
                  None \<Rightarrow> (None, leaveDisableInline (fCanInline g1) g2)
                | Some right \<Rightarrow>
                    binaryExpression ext ctx offset left op right
                      (leaveDisableInline (fCanInline g1) g2))))"
| "convertExpression ext ctx (ABool offset v) g = (Some (mk_BoolLiteral ctx offset v), g)"
| "convertExpression ext ctx (ACall offset b args) g =
     (case convertExpression ext ctx b g of
        (None, g1) \<Rightarrow> (None, g1)
      | (Some base, g1) \<Rightarrow>
          (case convertArguments ext ctx args g1 of
             (None, g2) \<Rightarrow> (None, g2)
           | (Some arguments, g2) \<Rightarrow> call ext ctx offset base arguments g2))"
| "convertExpression ext ctx (AField offset b field) g =
     (case convertExpression ext ctx b g of
        (None, g1) \<Rightarrow> (None, g1)
      | (Some base, g1) \<Rightarrow> fieldExpression ext ctx offset base field g1)"
| "convertExpression ext ctx (AFloat offset v) g = (Some (mk_FloatLiteral ctx offset v), g)"
| "convertExpression ext ctx (AIdentifier offset name) g = convertIdentifier ext ctx offset name g"
| "convertExpression ext ctx (AIndex offset b idx) g =
     (case convertExpression ext ctx b g of
        (None, g1) \<Rightarrow> (None, g1)
      | (Some base, g1) \<Rightarrow>
          (case idx of
             Some i \<Rightarrow>
               (case base of
                  TypeReference _ oldType _ \<Rightarrow>
                    (case i of
                       AInt _ n \<Rightarrow>
                         (Some (TypeReference (fOffset base)
                            (arrayType (fName oldType @ ''['' @ to_string (sint n) @ '']'')
                               oldType (to_int n))
                            (fInvalid_Type ctx)), g1)
                     | _ \<Rightarrow> (None, report g1 (fOffset base) ''array size must be a constant''))
                | _ \<Rightarrow>
                    if typeKind (type_of base) \<noteq> kArray \<and> typeKind (type_of base) \<noteq> kMatrix \<and>
                       typeKind (type_of base) \<noteq> kVector then
                      (None, report g1 (fOffset base)
                         (''expected array, but found '' @ q @
                          displayName ctx (type_of base) @ q))
                    else
                      (case convertExpression ext ctx i g1 of
                         (None, g2) \<Rightarrow> (None, g2)
                       | (Some converted, g2) \<Rightarrow>
                           (case (if \<not> type_eq (type_of converted) (fUInt_Type ctx)
                                  then coerce ext ctx (Some converted) (fInt_Type ctx) g2
                                  else (Some converted, g2)) of
                              (None, g3) \<Rightarrow> (None, g3)
                            | (Some converted1, g3) \<Rightarrow>
                                (case index_type ctx (type_of base) of
                                   None \<Rightarrow> (None, g3)
                                 | Some t \<Rightarrow> (Some (IndexExpression base converted1 t), g3)))))
           | None \<Rightarrow>
               (case base of
                  TypeReference _ oldType _ \<Rightarrow>
                    (Some (TypeReference (fOffset base)
                       (arrayType (fName oldType @ ''[]'') oldType (- 1))
                       (fInvalid_Type ctx)), g1)
                | _ \<Rightarrow> (None, report g1 offset (q @ ''[]'' @ q @ '' must follow a type name'')))))"
| "convertExpression ext ctx (AInt offset v) g = (Some (mk_IntLiteral ctx offset v), g)"
| "convertExpression ext ctx (ANull offset) g =
     (Some (NullLiteral offset (fNull_Type ctx)), g)"
| "convertExpression ext ctx (APostfix offset op b) g =
     (case convertExpression ext ctx b g of
        (None, g1) \<Rightarrow> (None, g1)
      | (Some base, g1) \<Rightarrow> postfixExpression ext ctx offset op base g1)"
| "convertExpression ext ctx (APrefix offset op b) g =
     (case convertExpression ext ctx b g of
        (None, g1) \<Rightarrow> (None, g1)
      | (Some base, g1) \<Rightarrow> prefixExpression ext ctx offset op base g1)"
| "convertExpression ext ctx (AScope offset b member) g =
     (case convertExpression ext ctx b g of
        (None, g1) \<Rightarrow> (None, g1)
      | (Some base, g1) \<Rightarrow>
          (case base of
             TypeReference _ t _ \<Rightarrow> convertTypeField ext (fOffset base) t member g1
           | _ \<Rightarrow> (None, report g1 offset (q @ ''::'' @ q @ '' must follow a type name''))))"
| "convertExpression ext ctx (ATernary offset t a b) g =
     (case convertExpression ext ctx t g of
        (test0, g0) \<Rightarrow>
          (case coerce ext ctx test0 (fBool_Type ctx) g0 of
             (None, g1) \<Rightarrow> (None, g1)
           | (Some test, g1) \<Rightarrow>
               (case convertExpression ext ctx a (enterDisableInline False g1) of
                  (None, g2) \<Rightarrow> (None, leaveDisableInline (fCanInline g1) g2)
                | (Some ifTrue, g2) \<Rightarrow>
                    (case convertExpression ext ctx b g2 of
                       (None, g3) \<Rightarrow> (None, leaveDisableInline (fCanInline g1) g3)
                     | (Some ifFalse, g3) \<Rightarrow>
                         ternaryExpression ext ctx offset test ifTrue ifFalse
                           (leaveDisableInline (fCanInline g1) g3)))))"
| "convertArguments ext ctx [] g = (Some [], g)"
| "convertArguments ext ctx (a # rest) g =
     (case convertExpression ext ctx a g of
        (None, g1) \<Rightarrow> (None, g1)
      | (Some converted, g1) \<Rightarrow>
          (case convertArguments ext ctx rest g1 of
             (None, g2) \<Rightarrow> (None, g2)
           | (Some arguments, g2) \<Rightarrow> (Some (converted # arguments), g2)))"


subsection \<open>Declarations\<close>

text \<open>
  The syntax of a type (name, nullable mark, and the sizes that follow it, an absent
  size being \<open>None\<close>), of one declared variable (name, array sizes, initial value) and
  of a declaration statement (modifiers, type, variables).
\<close>

record ASTType =
  type_fOffset :: int
  td_fName :: string
  fIsNullable :: bool
  type_sizes :: "int64 option list"

record ASTVarDecl =
  var_fOffset :: int
  vardata_fName :: string
  var_sizes :: "ASTExpr option list"
  var_value :: "ASTExpr option"

record ASTVarDeclarations =
  astdecls_fOffset :: int
  ast_modifiers :: Modifiers
  ast_rawType :: ASTType
  ast_vars :: "ASTVarDecl list"

text \<open>
  Modelled from the spec: \<^verbatim>\<open>SymbolTable::add\<close> is defined outside this file. The spec:
  declaring a name "fails (reports already defined) if name exists in the current scope
  only (shadowing an outer scope is legal)", and "multiple declarations with the same
  name are held as an UnresolvedFunction (overload set)".
\<close>

definition symbolTableAdd :: "string \<Rightarrow> Symbol \<Rightarrow> int \<Rightarrow> IRGenerator \<Rightarrow> IRGenerator" where
  "symbolTableAdd name symbol offset g =
     (case fSymbolTable g of
        [] \<Rightarrow> g
      | scope # parents \<Rightarrow>
          (case map_of scope name of
             None \<Rightarrow> g \<lparr> fSymbolTable := ((name, symbol) # scope) # parents \<rparr>
           | Some existing \<Rightarrow>
               (case (existing, symbol) of
                  (FunctionDeclarationSymbol f, FunctionDeclarationSymbol f') \<Rightarrow>
                    g \<lparr> fSymbolTable :=
                          ((name, UnresolvedFunctionSymbol [f, f']) # scope) # parents \<rparr>
                | (UnresolvedFunctionSymbol fs, FunctionDeclarationSymbol f') \<Rightarrow>
                    g \<lparr> fSymbolTable :=
                          ((name, UnresolvedFunctionSymbol (fs @ [f'])) # scope) # parents \<rparr>
                | _ \<Rightarrow>
                    report g offset (''symbol '' @ q @ name @ q @ '' was already defined''))))"

text \<open>
  The assignment through the pointer that a lookup returned: the symbol bound to the
  name in the nearest scope that has it is replaced.
\<close>

fun symbolReplace :: "SymbolTable \<Rightarrow> string \<Rightarrow> Symbol \<Rightarrow> SymbolTable" where
  "symbolReplace [] name symbol = []"
| "symbolReplace (scope # parents) name symbol =
     (case map_of scope name of
        Some s \<Rightarrow> ((name, symbol) # scope) # parents
      | None \<Rightarrow> scope # symbolReplace parents name symbol)"

text \<open>\<^verbatim>\<open>IRGenerator::convertType\<close>, with its loop over the sizes.\<close>

fun arrayTypes :: "Type \<Rightarrow> int64 option list \<Rightarrow> Type" where
  "arrayTypes result [] = result"
| "arrayTypes result (None # sizes) =
     arrayTypes (arrayType (fName result @ ''[]'') result 0) sizes"
| "arrayTypes result (Some n # sizes) =
     arrayTypes (arrayType (fName result @ ''['' @ to_string (sint n) @ '']'') result (to_int n))
       sizes"

definition nullableType :: "Type \<Rightarrow> Type" where
  "nullableType t = Type (fName t @ ''?'') kNullable kNonnumeric (- 1) (- 1) 1 (Some t) []"

definition convertType ::
  "Context \<Rightarrow> ASTType \<Rightarrow> bool \<Rightarrow> IRGenerator \<Rightarrow> Type option \<times> IRGenerator" where
  "convertType ctx type allowVoid g =
     (case symbolLookup (fSymbolTable g) (td_fName type) of
        Some (TypeSymbol t) \<Rightarrow>
          (let (result, g1) =
                 (if fIsNullable type then
                    (if type_eq t (fFragmentProcessor_Type ctx) then
                       (nullableType t,
                        if type_sizes type \<noteq> [] then
                          report g (type_fOffset type)
                            (''type '' @ q @ td_fName type @ q @ '' may not be used in an array'')
                        else g)
                     else
                       (t, report g (type_fOffset type)
                             (''type '' @ q @ td_fName type @ q @ '' may not be nullable'')))
                  else (t, g))
           in
           if type_eq result (fVoid_Type ctx) \<and> \<not> allowVoid then
             (None, report g1 (type_fOffset type)
                (''type '' @ q @ td_fName type @ q @ '' not allowed in this context''))
           else if type_eq result (fVoid_Type ctx) \<and> type_sizes type \<noteq> [] then
             (None, report g1 (type_fOffset type)
                (''type '' @ q @ td_fName type @ q @ '' may not be used in an array''))
           else (Some (arrayTypes result (type_sizes type)), g1))
      | _ \<Rightarrow>
          (None, report g (type_fOffset type) (''unknown type '' @ q @ td_fName type @ q)))"

text \<open>
  \<^verbatim>\<open>IRGenerator::checkModifiers\<close>: the \<^verbatim>\<open>CHECK\<close> macro for each flag in turn reports
  a flag that is set and not permitted.
\<close>

definition flagNames :: "(Modifier_Flag \<times> string) list" where
  "flagNames = [(kConst_Flag, ''const''), (kIn_Flag, ''in''), (kOut_Flag, ''out''),
     (kUniform_Flag, ''uniform''), (kFlat_Flag, ''flat''),
     (kNoPerspective_Flag, ''noperspective''), (kReadOnly_Flag, ''readonly''),
     (kWriteOnly_Flag, ''writeonly''), (kCoherent_Flag, ''coherent''),
     (kVolatile_Flag, ''volatile''), (kRestrict_Flag, ''restrict''),
     (kBuffer_Flag, ''buffer''), (kHasSideEffects_Flag, ''sk_has_side_effects''),
     (kPLS_Flag, ''__pixel_localEXT''), (kPLSIn_Flag, ''__pixel_local_inEXT''),
     (kPLSOut_Flag, ''__pixel_local_outEXT''), (kVarying_Flag, ''varying''),
     (kInline_Flag, ''inline'')]"

fun checkFlags ::
  "int \<Rightarrow> Modifier_Flag set \<Rightarrow> Modifier_Flag set \<Rightarrow> (Modifier_Flag \<times> string) list
     \<Rightarrow> IRGenerator \<Rightarrow> IRGenerator" where
  "checkFlags offset flags permitted [] g = g"
| "checkFlags offset flags permitted ((flag, name) # rest) g =
     (if flags = {} then g
      else if flag \<in> flags then
        checkFlags offset (flags - {flag}) permitted rest
          (if flag \<notin> permitted then report g offset (q @ name @ q @ '' is not permitted here'')
           else g)
      else checkFlags offset flags permitted rest g)"

definition checkModifiers :: "int \<Rightarrow> Modifiers \<Rightarrow> Modifier_Flag set \<Rightarrow> IRGenerator \<Rightarrow> IRGenerator" where
  "checkModifiers offset modifiers permitted g =
     checkFlags offset (fFlags modifiers) permitted flagNames g"

text \<open>A conditional report: \<^verbatim>\<open>if (c) fErrors.error(offset, msg)\<close>.\<close>

definition reportIf :: "bool \<Rightarrow> int \<Rightarrow> string \<Rightarrow> IRGenerator \<Rightarrow> IRGenerator" where
  "reportIf c offset msg g = (if c then report g offset msg else g)"

text \<open>
  The checks of \<^verbatim>\<open>convertVarDeclarations\<close> on the modifiers and the base type, in the
  order of the source; each only reports.
\<close>

definition validColorXformType :: "Type \<Rightarrow> bool" where
  "validColorXformType t \<longleftrightarrow>
     typeKind t = kVector \<and> (case fComponentType t of Some c \<Rightarrow> isFloat c | None \<Rightarrow> False) \<and>
     (columns t = 3 \<or> columns t = 4)"

definition checkDeclaration ::
  "Context \<Rightarrow> int \<Rightarrow> Modifiers \<Rightarrow> Type \<Rightarrow> Storage \<Rightarrow> IRGenerator \<Rightarrow> IRGenerator" where
  "checkDeclaration ctx offset modifiers baseType storage g =
     (let flags = fFlags modifiers; layout = fLayout modifiers;
          g1 = reportIf (type_eq (nonnullable baseType) (fFragmentProcessor_Type ctx) \<and>
                         storage \<noteq> kGlobal_Storage) offset
                 (''variables of type '' @ q @ displayName ctx baseType @ q @ '' must be global'')
                 g;
          g2 = (if fKind g1 \<noteq> kFragmentProcessor_Kind then
                  (reportIf (fKey layout) offset
                     (q @ ''key'' @ q @ '' is only permitted within fragment processors'')
                   (reportIf (\<not> fCTypeIsDefault layout) offset
                     (q @ ''ctype'' @ q @ '' is only permitted within fragment processors'')
                   (reportIf (kTracked_Flag \<in> layout_fFlags layout) offset
                     (q @ ''tracked'' @ q @ '' is only permitted within fragment processors'')
                   (reportIf (fWhen layout \<noteq> []) offset
                     (q @ ''when'' @ q @ '' is only permitted within fragment processors'')
                   (reportIf (kIn_Flag \<in> flags \<and> kUniform_Flag \<in> flags) offset
                     (q @ ''in uniform'' @ q @
                      '' variables only permitted within fragment processors'')
                   (reportIf (kIn_Flag \<in> flags \<and> typeKind baseType = kMatrix) offset
                     (q @ ''in'' @ q @ '' variables may not have matrix type'') g1))))))
                else g1);
          g3 = reportIf (fKind g2 = kPipelineStage_Kind \<and> kIn_Flag \<in> flags \<and>
                         \<not> type_eq (nonnullable baseType) (fFragmentProcessor_Type ctx)) offset
                 (q @ ''in'' @ q @ '' variables not permitted in runtime effects'') g2;
          g4 = reportIf (fKey layout \<and> kUniform_Flag \<in> flags) offset
                 (q @ ''key'' @ q @ '' is not permitted on '' @ q @ ''uniform'' @ q @
                  '' variables'') g3;
          g5 = (if fMarker layout \<noteq> [] then
                  (reportIf (\<not> type_eq baseType (fFloat4x4_Type ctx)) offset
                     (q @ ''marker'' @ q @ '' is only permitted on float4x4 variables'')
                   (reportIf (kUniform_Flag \<notin> flags) offset
                     (q @ ''marker'' @ q @ '' is only permitted on '' @ q @ ''uniform'' @ q @
                      '' variables'')
                   (reportIf (fKind g4 \<noteq> kPipelineStage_Kind) offset
                     (q @ ''marker'' @ q @ '' is only permitted in runtime effects'') g4)))
                else g4);
          g6 = (if kSRGBUnpremul_Flag \<in> layout_fFlags layout then
                  (reportIf (\<not> validColorXformType baseType \<and>
                             \<not> (typeKind baseType = kArray \<and>
                                (case fComponentType baseType of
                                   Some c \<Rightarrow> validColorXformType c | None \<Rightarrow> False))) offset
                     (q @ ''srgb_unpremul'' @ q @
                      '' is only permitted on half3, half4, float3, or float4 variables'')
                   (reportIf (kUniform_Flag \<notin> flags) offset
                     (q @ ''srgb_unpremul'' @ q @ '' is only permitted on '' @ q @ ''uniform'' @
                      q @ '' variables'')
                   (reportIf (fKind g5 \<noteq> kPipelineStage_Kind) offset
                     (q @ ''srgb_unpremul'' @ q @ '' is only permitted in runtime effects'')
                     g5)))
                else g5);
          g7 = (if kVarying_Flag \<in> flags then
                  (reportIf (\<not> isFloat baseType \<and>
                             \<not> (typeKind baseType = kVector \<and>
                                (case fComponentType baseType of
                                   Some c \<Rightarrow> isFloat c | None \<Rightarrow> False))) offset
                     (q @ ''varying'' @ q @ '' must be float scalar or vector'')
                   (reportIf (fKind g6 \<noteq> kPipelineStage_Kind) offset
                     (q @ ''varying'' @ q @ '' is only permitted in runtime effects'') g6))
                else g6);
          permitted = (if storage = kGlobal_Storage then
                         {kConst_Flag, kIn_Flag, kOut_Flag, kUniform_Flag, kFlat_Flag,
                          kVarying_Flag, kNoPerspective_Flag, kPLS_Flag, kPLSIn_Flag,
                          kPLSOut_Flag, kRestrict_Flag, kVolatile_Flag, kReadOnly_Flag,
                          kWriteOnly_Flag, kCoherent_Flag, kBuffer_Flag}
                       else {kConst_Flag})
      in checkModifiers offset modifiers permitted g7)"

text \<open>
  The loop of \<^verbatim>\<open>convertVarDeclarations\<close> over the array sizes of one variable: the
  type so far and the converted sizes so far are the loop state. A size must convert,
  coerce to \<^verbatim>\<open>int\<close> and then be an integer literal above zero.
\<close>

fun convertArraySizes ::
  "Ext \<Rightarrow> Context \<Rightarrow> ASTExpr option list \<Rightarrow> Type \<Rightarrow> Expression option list \<Rightarrow> IRGenerator
     \<Rightarrow> (Type \<times> Expression option list) option \<times> IRGenerator" where
  "convertArraySizes ext ctx [] type sizes g = (Some (type, sizes), g)"
| "convertArraySizes ext ctx (None # rest) type sizes g =
     convertArraySizes ext ctx rest (arrayType (fName type @ ''[]'') type (- 1))
       (sizes @ [None]) g"
| "convertArraySizes ext ctx (Some rawSize # rest) type sizes g =
     (case convertExpression ext ctx rawSize g of
        (converted, g1) \<Rightarrow>
          (case coerce ext ctx converted (fInt_Type ctx) g1 of
             (None, g2) \<Rightarrow> (None, g2)
           | (Some sz, g2) \<Rightarrow>
               (case sz of
                  IntLiteral _ count _ \<Rightarrow>
                    if sint count \<le> 0 then
                      (None, report g2 (fOffset sz) ''array size must be positive'')
                    else
                      convertArraySizes ext ctx rest
                        (arrayType (fName type @ ''['' @ to_string (sint count) @ '']'') type
                           (to_int count))
                        (sizes @ [Some sz]) g2
                | _ \<Rightarrow> (None, report g2 (fOffset sz) ''array size must be specified''))))"

text \<open>
  The body of the loop of \<^verbatim>\<open>convertVarDeclarations\<close> over the declared variables:
  \<open>None\<close> when the function returns null, otherwise the declaration to append, if any.
  \<^verbatim>\<open>fRTAdjust\<close> points to the variable, so it sees the initial value stored later.
\<close>

definition convertVarDecl ::
  "Ext \<Rightarrow> Context \<Rightarrow> Modifiers \<Rightarrow> Type \<Rightarrow> Storage \<Rightarrow> ASTVarDecl \<Rightarrow> IRGenerator
     \<Rightarrow> VarDeclaration option option \<times> IRGenerator" where
  "convertVarDecl ext ctx modifiers baseType storage varDecl g =
     (let g0 = reportIf (fLocation (fLayout modifiers) = 0 \<and> fIndex (fLayout modifiers) = 0 \<and>
                         kOut_Flag \<in> fFlags modifiers \<and> fKind g = kFragment_Kind \<and>
                         vardata_fName varDecl \<noteq> ''sk_FragColor'') (var_fOffset varDecl)
                 ''out location=0, index=0 is reserved for sk_FragColor'' g
      in
      case convertArraySizes ext ctx (var_sizes varDecl) baseType [] g0 of
        (None, g1) \<Rightarrow> (None, g1)
      | (Some (type, sizes), g1) \<Rightarrow>
          (let var0 = Variable modifiers (vardata_fName varDecl) type storage None;
               g2 = (if vardata_fName varDecl = RTADJUST_NAME ext
                     then g1 \<lparr> fRTAdjust := Some var0 \<rparr> else g1)
           in
           case (case var_value varDecl of
                   None \<Rightarrow> (Some None, g2)
                 | Some rawValue \<Rightarrow>
                     (case convertExpression ext ctx rawValue g2 of
                        (None, g3) \<Rightarrow> (None, g3)
                      | (Some v, g3) \<Rightarrow>
                          (case coerce ext ctx (Some v) type g3 of
                             (None, g4) \<Rightarrow> (None, g4)
                           | (Some v1, g4) \<Rightarrow> (Some (Some v1), g4)))) of
             (None, g5) \<Rightarrow> (None, g5)
           | (Some initial, g5) \<Rightarrow>
               (let var = Variable modifiers (vardata_fName varDecl) type storage initial;
                    g6 = (if vardata_fName varDecl = RTADJUST_NAME ext
                          then g5 \<lparr> fRTAdjust := Some var \<rparr> else g5);
                    symbol = symbolLookup (fSymbolTable g6) (vardata_fName varDecl)
                in
                if symbol \<noteq> None \<and> storage = kGlobal_Storage \<and>
                   vardata_fName varDecl = ''sk_FragColor'' then
                  (Some None, g6)
                else
                  (case symbol of
                     Some (VariableSymbol old) \<Rightarrow>
                       if storage = kGlobal_Storage \<and> fBuiltin (fLayout (fModifiers old)) \<ge> 0
                       then
                         (Some None,
                          g6 \<lparr> fSymbolTable :=
                                 symbolReplace (fSymbolTable g6) (vardata_fName varDecl)
                                   (VariableSymbol
                                      (Variable modifiers (var_fName old) (var_fType old)
                                         (fStorage old) (fInitialValue old))) \<rparr>)
                       else
                         (Some (Some \<lparr> fVar = var, fSizes = sizes, fValue = initial \<rparr>),
                          symbolTableAdd (vardata_fName varDecl) (VariableSymbol var)
                            (var_fOffset varDecl) g6)
                   | _ \<Rightarrow>
                       (Some (Some \<lparr> fVar = var, fSizes = sizes, fValue = initial \<rparr>),
                        symbolTableAdd (vardata_fName varDecl) (VariableSymbol var)
                          (var_fOffset varDecl) g6)))))"

fun convertVarDecls ::
  "Ext \<Rightarrow> Context \<Rightarrow> Modifiers \<Rightarrow> Type \<Rightarrow> Storage \<Rightarrow> ASTVarDecl list \<Rightarrow> IRGenerator
     \<Rightarrow> VarDeclaration list option \<times> IRGenerator" where
  "convertVarDecls ext ctx modifiers baseType storage [] g = (Some [], g)"
| "convertVarDecls ext ctx modifiers baseType storage (varDecl # rest) g =
     (case convertVarDecl ext ctx modifiers baseType storage varDecl g of
        (None, g1) \<Rightarrow> (None, g1)
      | (Some declared, g1) \<Rightarrow>
          (case convertVarDecls ext ctx modifiers baseType storage rest g1 of
             (None, g2) \<Rightarrow> (None, g2)
           | (Some variables, g2) \<Rightarrow>
               (Some ((case declared of Some d \<Rightarrow> [d] | None \<Rightarrow> []) @ variables), g2)))"

text \<open>\<^verbatim>\<open>IRGenerator::convertVarDeclarations\<close>.\<close>

definition convertVarDeclarations ::
  "Ext \<Rightarrow> Context \<Rightarrow> ASTVarDeclarations \<Rightarrow> Storage \<Rightarrow> IRGenerator
     \<Rightarrow> VarDeclarations option \<times> IRGenerator" where
  "convertVarDeclarations ext ctx decls storage g =
     (case convertType ctx (ast_rawType decls) False g of
        (None, g1) \<Rightarrow> (None, g1)
      | (Some baseType, g1) \<Rightarrow>
          (case convertVarDecls ext ctx (ast_modifiers decls) baseType storage (ast_vars decls)
                  (checkDeclaration ctx (astdecls_fOffset decls) (ast_modifiers decls) baseType
                     storage g1) of
             (None, g2) \<Rightarrow> (None, g2)
           | (Some variables, g2) \<Rightarrow>
               (Some \<lparr> decls_fOffset = astdecls_fOffset decls, fBaseType = baseType,
                       fVars = variables \<rparr>, g2)))"


subsection \<open>Statement conversion\<close>

datatype ASTStatement =
    SBlock int "ASTStatement list"
  | SVarDeclarations ASTVarDeclarations
  | SIf int bool ASTExpr ASTStatement "ASTStatement option"
  | SFor int "ASTStatement option" "ASTExpr option" "ASTExpr option" ASTStatement
  | SWhile int ASTExpr ASTStatement
  | SDo int ASTStatement ASTExpr
  | SSwitch int bool ASTExpr "ASTSwitchCase list"
  | SReturn int "ASTExpr option"
  | SBreak int
  | SContinue int
  | SDiscard int
  | SExpression ASTExpr
and ASTSwitchCase = ASTSwitchCase int "ASTExpr option" "ASTStatement list"

text \<open>
  The scope guards \<^verbatim>\<open>AutoLoopLevel\<close> and \<^verbatim>\<open>AutoSwitchLevel\<close>: the constructor
  increments the counter, the destructor decrements it on every way out of the function
  that declares the guard. \<^verbatim>\<open>AutoSymbolTable\<close> pushes and pops a scope in the same
  way (\<open>pushSymbolTable\<close>, \<open>popSymbolTable\<close>). Guards are destroyed in the reverse
  order of their declaration.
\<close>

definition enterLoop :: "IRGenerator \<Rightarrow> IRGenerator" where
  "enterLoop g = g \<lparr> fLoopLevel := fLoopLevel g + 1 \<rparr>"

definition leaveLoop :: "IRGenerator \<Rightarrow> IRGenerator" where
  "leaveLoop g = g \<lparr> fLoopLevel := fLoopLevel g - 1 \<rparr>"

definition enterSwitch :: "IRGenerator \<Rightarrow> IRGenerator" where
  "enterSwitch g = g \<lparr> fSwitchLevel := fSwitchLevel g + 1 \<rparr>"

definition leaveSwitch :: "IRGenerator \<Rightarrow> IRGenerator" where
  "leaveSwitch g = g \<lparr> fSwitchLevel := fSwitchLevel g - 1 \<rparr>"

text \<open>
  \<^verbatim>\<open>ensure_scoped_blocks\<close>: \<open>blockNeedsScope\<close> is its loop down the chain of nested
  blocks, true when the outermost block must become a scope.
\<close>

fun blockNeedsScope :: "Statement \<Rightarrow> bool" where
  "blockNeedsScope (Block off stmts True) = False"
| "blockNeedsScope (Block off [Block off' stmts' isScope'] False) =
     blockNeedsScope (Block off' stmts' isScope')"
| "blockNeedsScope (Block off [s] False) = False"
| "blockNeedsScope (Block off stmts False) = True"
| "blockNeedsScope s = False"

definition ensure_scoped_blocks :: "Statement \<Rightarrow> Statement" where
  "ensure_scoped_blocks stmt =
     (case stmt of
        Block off stmts isScope \<Rightarrow>
          if blockNeedsScope stmt then Block off stmts True else stmt
      | _ \<Rightarrow> stmt)"

text \<open>\<^verbatim>\<open>IRGenerator::getConstantInt\<close>.\<close>

fun getConstantInt :: "Expression \<Rightarrow> int64 option" where
  "getConstantInt (IntLiteral off v t) = Some v"
| "getConstantInt (VariableReference off (Variable modifiers name t storage initial) rk) =
     (if kConst_Flag \<in> fFlags modifiers then
        (case initial of
           Some e \<Rightarrow> getConstantInt e
         | None \<Rightarrow> None)
      else None)"
| "getConstantInt e = None"

text \<open>\<^verbatim>\<open>IRGenerator::convertBreak\<close> and \<^verbatim>\<open>IRGenerator::convertContinue\<close>.\<close>

definition convertBreak :: "int \<Rightarrow> IRGenerator \<Rightarrow> Statement option \<times> IRGenerator" where
  "convertBreak offset g =
     (if fLoopLevel g > 0 \<or> fSwitchLevel g > 0 then (Some (BreakStatement offset), g)
      else (None, report g offset ''break statement must be inside a loop or switch''))"

definition convertContinue :: "int \<Rightarrow> IRGenerator \<Rightarrow> Statement option \<times> IRGenerator" where
  "convertContinue offset g =
     (if fLoopLevel g > 0 then (Some (ContinueStatement offset), g)
      else (None, report g offset ''continue statement must be inside a loop''))"

text \<open>
  \<^verbatim>\<open>IRGenerator::convertReturn\<close>, inside a function (the source asserts
  \<^verbatim>\<open>fCurrentFunction\<close>).
\<close>

definition convertReturn ::
  "Ext \<Rightarrow> Context \<Rightarrow> int \<Rightarrow> ASTExpr option \<Rightarrow> IRGenerator \<Rightarrow> Statement option \<times> IRGenerator" where
  "convertReturn ext ctx offset r g =
     (case fCurrentFunction g of
        None \<Rightarrow> (None, g)
      | Some f \<Rightarrow>
          (case r of
             Some e \<Rightarrow>
               (case convertExpression ext ctx e g of
                  (None, g1) \<Rightarrow> (None, g1)
                | (Some result, g1) \<Rightarrow>
                    if type_eq (fReturnType f) (fVoid_Type ctx) then
                      (None, report g1 (fOffset result)
                         ''may not return a value from a void function'')
                    else
                      (case coerce ext ctx (Some result) (fReturnType f) g1 of
                         (None, g2) \<Rightarrow> (None, g2)
                       | (Some result1, g2) \<Rightarrow>
                           (Some (ReturnStatement (fOffset result1) (Some result1)), g2)))
           | None \<Rightarrow>
               (Some (ReturnStatement offset None),
                reportIf (\<not> type_eq (fReturnType f) (fVoid_Type ctx)) offset
                  (''expected function to return '' @ q @ displayName ctx (fReturnType f) @ q)
                  g)))"

text \<open>
  The conversion of a condition under \<^verbatim>\<open>AutoDisableInline\<close>:
  \<^verbatim>\<open>coerce(convertExpression(e), bool)\<close>, as in \<^verbatim>\<open>convertWhile\<close>, \<^verbatim>\<open>convertDo\<close> and
  \<^verbatim>\<open>convertFor\<close>.
\<close>

definition convertTest ::
  "Ext \<Rightarrow> Context \<Rightarrow> ASTExpr \<Rightarrow> IRGenerator \<Rightarrow> Expression option \<times> IRGenerator" where
  "convertTest ext ctx e g =
     (case convertExpression ext ctx e (enterDisableInline False g) of
        (converted, g1) \<Rightarrow>
          (case coerce ext ctx converted (fBool_Type ctx) g1 of
             (test, g2) \<Rightarrow> (test, leaveDisableInline (fCanInline g) g2)))"

text \<open>The test and the increment of a \<^verbatim>\<open>for\<close>: absent, failed or converted.\<close>

definition convertForTest ::
  "Ext \<Rightarrow> Context \<Rightarrow> ASTExpr option \<Rightarrow> IRGenerator \<Rightarrow> Expression option option \<times> IRGenerator" where
  "convertForTest ext ctx e g =
     (case e of
        None \<Rightarrow> (Some None, g)
      | Some t \<Rightarrow>
          (case convertTest ext ctx t g of
             (None, g1) \<Rightarrow> (None, g1)
           | (Some test, g1) \<Rightarrow> (Some (Some test), g1)))"

definition convertForNext ::
  "Ext \<Rightarrow> Context \<Rightarrow> ASTExpr option \<Rightarrow> IRGenerator \<Rightarrow> Expression option option \<times> IRGenerator" where
  "convertForNext ext ctx e g =
     (case e of
        None \<Rightarrow> (Some None, g)
      | Some n \<Rightarrow>
          (case convertExpression ext ctx n (enterDisableInline False g) of
             (None, g1) \<Rightarrow> (None, leaveDisableInline (fCanInline g) g1)
           | (Some converted, g1) \<Rightarrow>
               (Some (Some converted), leaveDisableInline (fCanInline g) g1)))"

text \<open>
  The value of a \<^verbatim>\<open>switch\<close>: converted, and coerced to \<^verbatim>\<open>int\<close> unless it is a
  \<^verbatim>\<open>uint\<close> or an enum.
\<close>

definition convertSwitchValue ::
  "Ext \<Rightarrow> Context \<Rightarrow> ASTExpr \<Rightarrow> IRGenerator \<Rightarrow> Expression option \<times> IRGenerator" where
  "convertSwitchValue ext ctx e g =
     (case convertExpression ext ctx e g of
        (None, g1) \<Rightarrow> (None, g1)
      | (Some v, g1) \<Rightarrow>
          if \<not> type_eq (type_of v) (fUInt_Type ctx) \<and> typeKind (type_of v) \<noteq> kEnum then
            coerce ext ctx (Some v) (fInt_Type ctx) g1
          else (Some v, g1))"

text \<open>
  The value of a \<^verbatim>\<open>case\<close>: absent (\<^verbatim>\<open>default\<close>), failed, or converted, with the set
  of the case values seen so far. The set holds \<^verbatim>\<open>int\<close>s, so the 64-bit value is
  converted when it is looked up and inserted.
\<close>

definition convertCaseValue ::
  "Ext \<Rightarrow> Context \<Rightarrow> Type \<Rightarrow> ASTExpr option \<Rightarrow> int set \<Rightarrow> IRGenerator
     \<Rightarrow> (Expression option \<times> int set) option \<times> IRGenerator" where
  "convertCaseValue ext ctx valueType e caseValues g =
     (case e of
        None \<Rightarrow> (Some (None, caseValues), g)
      | Some c \<Rightarrow>
          (case convertExpression ext ctx c g of
             (None, g1) \<Rightarrow> (None, g1)
           | (Some caseValue, g1) \<Rightarrow>
               (case coerce ext ctx (Some caseValue) valueType g1 of
                  (None, g2) \<Rightarrow> (None, g2)
                | (Some caseValue1, g2) \<Rightarrow>
                    (case getConstantInt caseValue1 of
                       None \<Rightarrow>
                         (None, report g2 (fOffset caseValue1)
                            ''case value must be a constant integer'')
                     | Some v \<Rightarrow>
                         (Some (Some caseValue1, insert (to_int v) caseValues),
                          reportIf (to_int v \<in> caseValues) (fOffset caseValue1)
                            ''duplicate case value'' g2)))))"

text \<open>
  The end of \<^verbatim>\<open>convertSingleStatement\<close> for an expression statement: in a geometry
  shader with \<^verbatim>\<open>sk_RTAdjust\<close>, a call of the built-in \<^verbatim>\<open>EmitVertex\<close> is preceded by
  the normalization of \<^verbatim>\<open>sk_Position\<close>.
\<close>

definition expressionStatement ::
  "Ext \<Rightarrow> int \<Rightarrow> Expression \<Rightarrow> IRGenerator \<Rightarrow> Statement" where
  "expressionStatement ext offset e g =
     (if fRTAdjust g \<noteq> None \<and> fKind g = kGeometry_Kind then
        (case e of
           FunctionCall _ _ f _ \<Rightarrow>
             if fn_fBuiltin f \<and> fn_fName f = ''EmitVertex'' then
               Block offset [getNormalizeSkPositionCode ext g, ExpressionStatement e] True
             else ExpressionStatement e
         | _ \<Rightarrow> ExpressionStatement e)
      else ExpressionStatement e)"

text \<open>The constant folding of \<^verbatim>\<open>convertIf\<close>.\<close>

definition ifStatement ::
  "int \<Rightarrow> bool \<Rightarrow> Expression \<Rightarrow> Statement \<Rightarrow> Statement option \<Rightarrow> Statement" where
  "ifStatement offset isStatic test ifTrue ifFalse =
     (case test of
        BoolLiteral _ v _ \<Rightarrow>
          if v then ifTrue
          else (case ifFalse of Some s \<Rightarrow> s | None \<Rightarrow> Nop)
      | _ \<Rightarrow> IfStatement offset isStatic test ifTrue ifFalse)"

text \<open>
  \<^verbatim>\<open>convertStatement\<close> saves and empties \<^verbatim>\<open>fExtraStatements\<close>, converts with
  \<^verbatim>\<open>convertSingleStatement\<close> and wraps the result with the extra statements the
  conversion has left. \<^verbatim>\<open>convertSingleStatement\<close> has one equation for each statement
  kind, after \<^verbatim>\<open>convertBlock\<close>, \<^verbatim>\<open>convertVarDeclarationStatement\<close>, \<^verbatim>\<open>convertIf\<close>,
  \<^verbatim>\<open>convertFor\<close>, \<^verbatim>\<open>convertWhile\<close>, \<^verbatim>\<open>convertDo\<close>, \<^verbatim>\<open>convertSwitch\<close> and the
  rest; \<open>convertStatements\<close> is the loop over the statements of a block or a case,
  \<open>convertCases\<close> the loop over the cases of a switch.
\<close>

fun convertStatement ::
    "Ext \<Rightarrow> Context \<Rightarrow> ASTStatement \<Rightarrow> IRGenerator \<Rightarrow> Statement option \<times> IRGenerator"
  and convertSingleStatement ::
    "Ext \<Rightarrow> Context \<Rightarrow> ASTStatement \<Rightarrow> IRGenerator \<Rightarrow> Statement option \<times> IRGenerator"
  and convertStatements ::
    "Ext \<Rightarrow> Context \<Rightarrow> ASTStatement list \<Rightarrow> IRGenerator \<Rightarrow> Statement list option \<times> IRGenerator"
  and convertCases ::
    "Ext \<Rightarrow> Context \<Rightarrow> Type \<Rightarrow> ASTSwitchCase list \<Rightarrow> int set \<Rightarrow> IRGenerator
       \<Rightarrow> SwitchCase list option \<times> IRGenerator"
where
  "convertStatement ext ctx statement g =
     (case convertSingleStatement ext ctx statement (g \<lparr> fExtraStatements := [] \<rparr>) of
        (None, g1) \<Rightarrow> (None, g1 \<lparr> fExtraStatements := fExtraStatements g \<rparr>)
      | (Some result, g1) \<Rightarrow>
          if fExtraStatements g1 \<noteq> [] then
            (Some (Block (- 1) (fExtraStatements g1 @ [result]) False),
             g1 \<lparr> fExtraStatements := fExtraStatements g \<rparr>)
          else (Some result, g1 \<lparr> fExtraStatements := fExtraStatements g \<rparr>))"
| "convertSingleStatement ext ctx (SBlock offset children) g =
     (case convertStatements ext ctx children (pushSymbolTable g) of
        (None, g1) \<Rightarrow> (None, popSymbolTable g1)
      | (Some statements, g1) \<Rightarrow> (Some (Block offset statements True), popSymbolTable g1))"
| "convertSingleStatement ext ctx (SVarDeclarations decls) g =
     (case convertVarDeclarations ext ctx decls kLocal_Storage g of
        (None, g1) \<Rightarrow> (None, g1)
      | (Some decl, g1) \<Rightarrow> (Some (VarDeclarationsStatement decl), g1))"
| "convertSingleStatement ext ctx (SIf offset isStatic t a b) g =
     (case convertExpression ext ctx t g of
        (converted, g0) \<Rightarrow>
          (case coerce ext ctx converted (fBool_Type ctx) g0 of
             (None, g1) \<Rightarrow> (None, g1)
           | (Some test, g1) \<Rightarrow>
               (case convertStatement ext ctx a g1 of
                  (None, g2) \<Rightarrow> (None, g2)
                | (Some ifTrue, g2) \<Rightarrow>
                    (case b of
                       None \<Rightarrow>
                         (Some (ifStatement offset isStatic test (ensure_scoped_blocks ifTrue)
                                  None), g2)
                     | Some e \<Rightarrow>
                         (case convertStatement ext ctx e g2 of
                            (None, g3) \<Rightarrow> (None, g3)
                          | (Some ifFalse, g3) \<Rightarrow>
                              (Some (ifStatement offset isStatic test
                                       (ensure_scoped_blocks ifTrue)
                                       (Some (ensure_scoped_blocks ifFalse))), g3))))))"
| "convertSingleStatement ext ctx (SFor offset i t n body) g =
     (case (case i of
              None \<Rightarrow> (Some None, pushSymbolTable (enterLoop g))
            | Some s \<Rightarrow>
                (case convertStatement ext ctx s (pushSymbolTable (enterLoop g)) of
                   (None, g1) \<Rightarrow> (None, g1)
                 | (Some initializer, g1) \<Rightarrow> (Some (Some initializer), g1))) of
        (None, g1) \<Rightarrow> (None, leaveLoop (popSymbolTable g1))
      | (Some initializer, g1) \<Rightarrow>
          (case convertForTest ext ctx t g1 of
             (None, g2) \<Rightarrow> (None, leaveLoop (popSymbolTable g2))
           | (Some test, g2) \<Rightarrow>
               (case convertForNext ext ctx n g2 of
                  (None, g3) \<Rightarrow> (None, leaveLoop (popSymbolTable g3))
                | (Some next, g3) \<Rightarrow>
                    (case convertStatement ext ctx body g3 of
                       (None, g4) \<Rightarrow> (None, leaveLoop (popSymbolTable g4))
                     | (Some statement, g4) \<Rightarrow>
                         (Some (ForStatement offset initializer test next
                                  (ensure_scoped_blocks statement)),
                          leaveLoop (popSymbolTable g4))))))"
| "convertSingleStatement ext ctx (SWhile offset t body) g =
     (case convertTest ext ctx t (enterLoop g) of
        (None, g1) \<Rightarrow> (None, leaveLoop g1)
      | (Some test, g1) \<Rightarrow>
          (case convertStatement ext ctx body g1 of
             (None, g2) \<Rightarrow> (None, leaveLoop g2)
           | (Some statement, g2) \<Rightarrow>
               (Some (WhileStatement offset test (ensure_scoped_blocks statement)),
                leaveLoop g2)))"
| "convertSingleStatement ext ctx (SDo offset body t) g =
     (case convertStatement ext ctx body (enterLoop g) of
        (None, g1) \<Rightarrow> (None, leaveLoop g1)
      | (Some statement, g1) \<Rightarrow>
          (case convertTest ext ctx t g1 of
             (None, g2) \<Rightarrow> (None, leaveLoop g2)
           | (Some test, g2) \<Rightarrow>
               (Some (DoStatement offset (ensure_scoped_blocks statement) test),
                leaveLoop g2)))"
| "convertSingleStatement ext ctx (SSwitch offset isStatic v cases) g =
     (case convertSwitchValue ext ctx v (enterSwitch g) of
        (None, g1) \<Rightarrow> (None, leaveSwitch g1)
      | (Some switchValue, g1) \<Rightarrow>
          (case convertCases ext ctx (type_of switchValue) cases {} (pushSymbolTable g1) of
             (None, g2) \<Rightarrow> (None, leaveSwitch (popSymbolTable g2))
           | (Some converted, g2) \<Rightarrow>
               (Some (SwitchStatement offset isStatic switchValue converted),
                leaveSwitch (popSymbolTable g2))))"
| "convertSingleStatement ext ctx (SReturn offset r) g = convertReturn ext ctx offset r g"
| "convertSingleStatement ext ctx (SBreak offset) g = convertBreak offset g"
| "convertSingleStatement ext ctx (SContinue offset) g = convertContinue offset g"
| "convertSingleStatement ext ctx (SDiscard offset) g = (Some (DiscardStatement offset), g)"
| "convertSingleStatement ext ctx (SExpression e) g =
     (case convertExpression ext ctx e g of
        (None, g1) \<Rightarrow> (None, g1)
      | (Some converted, g1) \<Rightarrow>
          (Some (expressionStatement ext (ast_fOffset e) converted g1), g1))"
| "convertStatements ext ctx [] g = (Some [], g)"
| "convertStatements ext ctx (child # rest) g =
     (case convertStatement ext ctx child g of
        (None, g1) \<Rightarrow> (None, g1)
      | (Some statement, g1) \<Rightarrow>
          (case convertStatements ext ctx rest g1 of
             (None, g2) \<Rightarrow> (None, g2)
           | (Some statements, g2) \<Rightarrow> (Some (statement # statements), g2)))"
| "convertCases ext ctx valueType [] caseValues g = (Some [], g)"
| "convertCases ext ctx valueType (ASTSwitchCase offset c children # rest) caseValues g =
     (case convertCaseValue ext ctx valueType c caseValues g of
        (None, g1) \<Rightarrow> (None, g1)
      | (Some (caseValue, caseValues1), g1) \<Rightarrow>
          (case convertStatements ext ctx children g1 of
             (None, g2) \<Rightarrow> (None, g2)
           | (Some statements, g2) \<Rightarrow>
               (case convertCases ext ctx valueType rest caseValues1 g2 of
                  (None, g3) \<Rightarrow> (None, g3)
                | (Some converted, g3) \<Rightarrow>
                    (Some (SwitchCase offset caseValue statements # converted), g3))))"

end
